theory Spec2Isabelle
  imports Main
begin

section \<open>JavaScript values used by the plugin\<close>

text \<open>
  A JavaScript \<open>Set\<close> of strings iterates in insertion order and holds no element
  twice: it is a duplicate-free list, extended at the end.
\<close>

definition set_add :: "'a \<Rightarrow> 'a list \<Rightarrow> 'a list" where
  "set_add x xs = (if x \<in> set xs then xs else xs @ [x])"

text \<open>
  A plain object with string keys is an association list in insertion order: assigning
  to an existing key replaces its value in place, assigning to a new key appends it.
  (Keys that spell an array index or a member of \<open>Object.prototype\<close> are outside the
  model: no partition name and no data key of the locale data is one.)
\<close>

type_synonym 'v obj = "(string \<times> 'v) list"

fun obj_set :: "string \<Rightarrow> 'v \<Rightarrow> 'v obj \<Rightarrow> 'v obj" where
  "obj_set k v [] = [(k, v)]"
| "obj_set k v (p # ps) = (if fst p = k then (k, v) # ps else p # obj_set k v ps)"

definition obj_get :: "'v obj \<Rightarrow> string \<Rightarrow> 'v option" where
  "obj_get ob k = map_of ob k"

definition obj_keys :: "'v obj \<Rightarrow> string list" where
  "obj_keys ob = map fst ob"

text \<open>The errors the pass can throw or catch.\<close>

datatype error =
    TypeError
  | IOError string
  | SyntaxError
  | ModuleNotFound string

definition dquote :: char where
  "dquote = CHR 0x22"

definition newline :: char where
  "newline = CHR 0x0A"

definition backslash :: char where
  "backslash = CHR 0x5C"

definition replace_char :: "char \<Rightarrow> char \<Rightarrow> string \<Rightarrow> string" where
  "replace_char a b s = map (\<lambda>c. if c = a then b else c) s"

definition endsWith :: "string \<Rightarrow> string \<Rightarrow> bool" where
  "endsWith s suffix = (length suffix \<le> length s \<and> drop (length s - length suffix) s = suffix)"

section \<open>Helpers of the plugin\<close>

text \<open>
  \<open>toIlibDataName\<close>: empty for a falsy name, \<open>root\<close> and \<open>*\<close>; otherwise every
  character of \<open>. : ( ) / \ + -\<close> becomes an underscore.
\<close>

definition toIlibDataName :: "string \<Rightarrow> string" where
  "toIlibDataName str =
     (if str = [] \<or> str = ''root'' \<or> str = ''*'' then []
      else map (\<lambda>c. if c \<in> set ''.:()/+-'' \<or> c = backslash then CHR ''_'' else c) str)"

text \<open>
  \<open>normPattern\<close> is \<open>/(nfc|nfd|nfkc|nfkd)(\/(\w+))?/g\<close>, run by \<open>exec\<close> with
  \<open>lastIndex\<close> reset to 0: the leftmost position where a form starts; then, if a slash
  and at least one word character follow, the longest run of word characters is group 3.
  The result is the pair of \<open>match[1]\<close> and \<open>match[3] || ""\<close>.
\<close>

definition is_word_char :: "char \<Rightarrow> bool" where
  "is_word_char c =
     (c \<in> set ''abcdefghijklmnopqrstuvwxyzABCDEFGHIJKLMNOPQRSTUVWXYZ0123456789_'')"

definition norm_forms :: "string list" where
  "norm_forms = [''nfc'', ''nfd'', ''nfkc'', ''nfkd'']"

fun match_form :: "string \<Rightarrow> string list \<Rightarrow> string option" where
  "match_form s [] = None"
| "match_form s (f # fs) = (if take (length f) s = f then Some f else match_form s fs)"

definition match_script :: "string \<Rightarrow> string" where
  "match_script rest =
     (case rest of
        [] \<Rightarrow> []
      | c # cs \<Rightarrow> if c = CHR ''/'' then takeWhile is_word_char cs else [])"

fun normPattern_exec :: "string \<Rightarrow> (string \<times> string) option" where
  "normPattern_exec [] = None"
| "normPattern_exec (c # cs) =
     (case match_form (c # cs) norm_forms of
        Some f \<Rightarrow> Some (f, match_script (drop (length f) (c # cs)))
      | None \<Rightarrow> normPattern_exec cs)"

section \<open>The environment: Node, the file system and the ilib library\<close>

text \<open>
  The tag that \<open>new Locale(spec)\<close> of ilib parses. The empty string stands for a
  component that the tag lacks: ilib leaves such a component \<open>undefined\<close> and never stores
  an empty one, and both are falsy in JavaScript.
\<close>

record locale_tag =
  language :: string
  script :: string
  region :: string

text \<open>
  What the pass reads of the outside world. A function that can throw returns \<open>None\<close>
  where it throws. \<open>path\<close>, \<open>JSON\<close> and ilib's \<open>Locale\<close> and \<open>LocaleMatcher\<close> are
  libraries, not code of the plugin: they are parameters.
  \<^item> \<open>parse_zonetab\<close> is \<open>JSON.parse\<close> of the zonetab, a table from region to zone names;
  \<^item> \<open>charset_optional\<close> is \<open>JSON.parse\<close> of a charset fragment followed by
    \<open>typeof(cs.optional) === "boolean" && cs.optional\<close>;
  \<^item> \<open>require_json\<close> is \<open>require\<close> of \<open>lang2charset.json\<close>, a table from language
    (and script) to charset names;
  \<^item> \<open>likely_script\<close> is \<open>new LocaleMatcher({locale}).getLikelyLocale().getScript()\<close>;
  \<^item> \<open>writable p\<close> says that \<open>makeDirs\<close> of the directory of \<open>p\<close> and
    \<open>fs.writeFileSync\<close> of \<open>p\<close> succeed;
  \<^item> \<open>stringify_files xs\<close> is \<open>JSON.stringify({files: xs})\<close>.
\<close>

record env =
  existsSync :: "string \<Rightarrow> bool"
  readFileSync :: "string \<Rightarrow> string option"
  readdirSync :: "string \<Rightarrow> string list option"
  require_json :: "string \<Rightarrow> (string \<Rightarrow> string list option) option"
  parse_zonetab :: "string \<Rightarrow> (string \<Rightarrow> string list option) option"
  charset_optional :: "string \<Rightarrow> bool option"
  new_Locale :: "string \<Rightarrow> locale_tag"
  likely_script :: "string \<Rightarrow> string"
  path_join :: "string list \<Rightarrow> string"
  path_basename :: "string \<Rightarrow> string \<Rightarrow> string"
  path_isAbsolute :: "string \<Rightarrow> bool"
  path_resolve :: "string \<Rightarrow> string"
  cwd :: string
  module_paths :: "string list"
  writable :: "string \<Rightarrow> bool"
  stringify_files :: "string list \<Rightarrow> string"

text \<open>
  The options of the plugin. An absent \<open>ilibRoot\<close> or \<open>compilation\<close> is the empty
  string; an absent \<open>tempDir\<close> is \<open>None\<close>, since \<open>path.isAbsolute(undefined)\<close> throws.
\<close>

record options =
  ilibRoot :: string
  locales :: "string list"
  tempDir :: "string option"
  compilation :: string
  debug :: bool

definition findIlibRoot :: "env \<Rightarrow> string option" where
  "findIlibRoot e =
     (case find (\<lambda>p. existsSync e (path_join e [p, ''ilib/package.json''])) (module_paths e) of
        None \<Rightarrow> None
      | Some dir \<Rightarrow> if dir = [] then Some [] else Some (path_join e [dir, ''ilib'']))"

definition calcDataRoot :: "env \<Rightarrow> options \<Rightarrow> error + string" where
  "calcDataRoot e opts =
     (if ilibRoot opts = [] then
        (case findIlibRoot e of
           None \<Rightarrow> Inl TypeError
         | Some r \<Rightarrow> Inr (path_join e [r, ''locale'']))
      else Inr (path_join e [ilibRoot opts,
                  if compilation opts = ''uncompiled'' then ''data/locale'' else ''locale'']))"

definition calcOutputDir :: "env \<Rightarrow> options \<Rightarrow> error + string" where
  "calcOutputDir e opts =
     (case tempDir opts of
        None \<Rightarrow> Inl TypeError
      | Some t \<Rightarrow>
          Inr (path_resolve e
                 (if path_isAbsolute e t then t
                  else path_join e [cwd e, if t = [] then ''assets'' else t])))"

section \<open>The aggregation state of one pass\<close>

text \<open>
  The local variables of \<open>emitLocaleData\<close> that the callbacks share: \<open>outputSet\<close> maps a
  partition to its bucket, a bucket maps a data key to its assignment line; \<open>errlog\<close>
  holds the errors that a \<open>catch\<close> printed with \<open>console.log\<close> (the messages printed
  under \<open>options.debug\<close> are not modelled).
\<close>

record agg =
  outputSet :: "(string obj) obj"
  manifest :: "string list"
  charsets :: "string list"
  charmaps :: "(string list) obj"
  normalizations :: "(string list) obj"
  lang2charset :: "(string \<Rightarrow> string list option) option"
  errlog :: "error list"

definition init_agg :: agg where
  "init_agg = \<lparr>outputSet = [], manifest = [], charsets = [], charmaps = [],
                normalizations = [], lang2charset = None, errlog = []\<rparr>"

text \<open>\<open>outputSet[part][key]\<close> read as a condition: an absent entry and \<open>""\<close> are falsy.\<close>

definition entry_truthy :: "(string obj) obj \<Rightarrow> string \<Rightarrow> string \<Rightarrow> bool" where
  "entry_truthy os part key =
     (case obj_get os part of
        None \<Rightarrow> False
      | Some bucket \<Rightarrow> (case obj_get bucket key of None \<Rightarrow> False | Some line \<Rightarrow> line \<noteq> []))"

text \<open>
  \<open>outputSet[part][key] = line\<close>: a \<open>TypeError\<close> (here \<open>None\<close>) when the bucket is
  \<open>undefined\<close>.
\<close>

definition put_line :: "string \<Rightarrow> string \<Rightarrow> string \<Rightarrow> (string obj) obj \<Rightarrow> (string obj) obj option" where
  "put_line part key line os =
     (case obj_get os part of
        None \<Rightarrow> None
      | Some bucket \<Rightarrow> Some (obj_set part (obj_set key line bucket) os))"

text \<open>\<open>if (!outputSet[part]) outputSet[part] = {}\<close>\<close>

definition ensure_bucket :: "string \<Rightarrow> (string obj) obj \<Rightarrow> (string obj) obj" where
  "ensure_bucket part os = (case obj_get os part of None \<Rightarrow> obj_set part [] os | Some b \<Rightarrow> os)"

definition log_error :: "error \<Rightarrow> agg \<Rightarrow> agg" where
  "log_error err st = st\<lparr>errlog := errlog st @ [err]\<rparr>"

text \<open>A \<open>forEach\<close> whose callback can throw: the first throw ends the loop.\<close>

fun forEachM :: "('a \<Rightarrow> 's \<Rightarrow> error + 's) \<Rightarrow> 'a list \<Rightarrow> 's \<Rightarrow> error + 's" where
  "forEachM f [] s = Inr s"
| "forEachM f (x # xs) s = (case f x s of Inl err \<Rightarrow> Inl err | Inr s' \<Rightarrow> forEachM f xs s')"

section \<open>The main loop of \<open>emitLocaleData\<close>\<close>

subsection \<open>Charset and charmaps requests\<close>

text \<open>
  The table of \<open>lang2charset.json\<close> is loaded on first use, by \<open>require\<close>, outside every
  \<open>try\<close>. A file name that starts with neither \<open>/\<close> nor \<open>.\<close> gets \<open>./\<close> in front.
\<close>

definition require_name :: "string \<Rightarrow> string" where
  "require_name fileName =
     (case fileName of
        [] \<Rightarrow> ''./'' @ fileName
      | c # cs \<Rightarrow> if c \<noteq> CHR ''/'' \<and> c \<noteq> CHR ''.'' then ''./'' @ fileName else fileName)"

definition load_lang2charset ::
  "env \<Rightarrow> string \<Rightarrow> agg \<Rightarrow> error + ((string \<Rightarrow> string list option) \<times> agg)" where
  "load_lang2charset e dataRoot st =
     (case lang2charset st of
        Some table \<Rightarrow> Inr (table, st)
      | None \<Rightarrow>
          (let fileName = require_name (path_join e [dataRoot, ''lang2charset.json''])
           in case require_json e fileName of
                None \<Rightarrow> Inl (ModuleNotFound fileName)
              | Some table \<Rightarrow> Inr (table, st\<lparr>lang2charset := Some table\<rparr>)))"

text \<open>
  The language where it is concatenated to a string: \<open>undefined\<close> then reads
  \<open>"undefined"\<close>.
\<close>

definition language_text :: "locale_tag \<Rightarrow> string" where
  "language_text l = (if language l = [] then ''undefined'' else language l)"

definition lang_spec :: "locale_tag \<Rightarrow> string" where
  "lang_spec l = language_text l @ (if script l \<noteq> [] then ''-'' @ script l else [])"

definition charset_request :: "env \<Rightarrow> string \<Rightarrow> string \<Rightarrow> string \<Rightarrow> agg \<Rightarrow> error + agg" where
  "charset_request e dataRoot locale filename st =
     (case load_lang2charset e dataRoot st of
        Inl err \<Rightarrow> Inl err
      | Inr (table, st1) \<Rightarrow>
          (let spec = lang_spec (new_Locale e locale)
           in case table spec of
                None \<Rightarrow> Inr st1
              | Some names \<Rightarrow>
                  (let st2 = st1\<lparr>charsets := fold set_add names (charsets st1)\<rparr>
                   in if filename = ''charmaps'' then
                        Inr (st2\<lparr>charmaps :=
                               obj_set spec
                                 (fold set_add names
                                    (case obj_get (charmaps st2) spec of None \<Rightarrow> [] | Some s \<Rightarrow> s))
                                 (charmaps st2)\<rparr>)
                      else Inr st2)))"

subsection \<open>Normalization requests\<close>

text \<open>
  \<open>match.length\<close> is 4 for this pattern, so \<open>match[3] || ""\<close> is always added to the
  set of the form.
\<close>

definition norm_request :: "string \<Rightarrow> string \<Rightarrow> agg \<Rightarrow> agg" where
  "norm_request form scr st =
     st\<lparr>normalizations :=
          obj_set form
            (set_add scr (case obj_get (normalizations st) form of None \<Rightarrow> [] | Some s \<Rightarrow> s))
            (normalizations st)\<rparr>"

subsection \<open>Zoneinfo requests\<close>

definition zone_name :: "string \<Rightarrow> string" where
  "zone_name zone = replace_char (CHR ''+'') (CHR ''p'') (replace_char (CHR ''-'') (CHR ''m'') zone)"

definition zone_line :: "string \<Rightarrow> string \<Rightarrow> string" where
  "zone_line zone data =
     ''ilib.data.zoneinfo['' @ [dquote] @ zone_name zone @ [dquote] @ ''] = '' @ data @ '';'' @ [newline]"

definition zonetab_line :: "string \<Rightarrow> string" where
  "zonetab_line data = ''ilib.data.zoneinfo.zonetab = '' @ data @ '';'' @ [newline]"

text \<open>
  \<open>zonetab[region]\<close>: the region of a tag without one is \<open>undefined\<close>, which as a
  property name reads \<open>"undefined"\<close>.
\<close>

definition region_key :: "string \<Rightarrow> string" where
  "region_key r = (if r = [] then ''undefined'' else r)"

definition regionSet :: "env \<Rightarrow> string list \<Rightarrow> string list" where
  "regionSet e locs = fold (\<lambda>locale rs. set_add (region (new_Locale e locale)) rs) locs []"

definition zoneSet :: "(string \<Rightarrow> string list option) \<Rightarrow> string list \<Rightarrow> string list" where
  "zoneSet zonetab regions =
     fold (\<lambda>r zs. case zonetab (region_key r) of None \<Rightarrow> zs | Some zones \<Rightarrow> fold set_add zones zs)
       regions []"

text \<open>The zones of the requested regions: the body of the callback is inside a \<open>try\<close>.\<close>

definition region_zone :: "env \<Rightarrow> string \<Rightarrow> string \<Rightarrow> agg \<Rightarrow> agg" where
  "region_zone e dataRoot zone st =
     (let cwdToData = path_join e [dataRoot, ''zoneinfo'', zone @ ''.json'']
      in if existsSync e cwdToData then
           (case readFileSync e cwdToData of
              None \<Rightarrow> log_error (IOError cwdToData) st
            | Some data \<Rightarrow>
                (case put_line ''root'' zone (zone_line zone data) (outputSet st) of
                   None \<Rightarrow> log_error TypeError st
                 | Some os \<Rightarrow>
                     st\<lparr>outputSet := os,
                        manifest := set_add (path_join e [''zoneinfo'', zone @ ''.json'']) (manifest st)\<rparr>))
         else st)"

text \<open>The generic zones: the body of this callback is inside no \<open>try\<close>.\<close>

definition generic_zone :: "env \<Rightarrow> string \<Rightarrow> string \<Rightarrow> agg \<Rightarrow> error + agg" where
  "generic_zone e dataRoot file st =
     (let zone = path_basename e file ''.json'';
          cwdToData = path_join e [dataRoot, ''zoneinfo'', file]
      in case readFileSync e cwdToData of
           None \<Rightarrow> Inl (IOError cwdToData)
         | Some data \<Rightarrow>
             (case put_line ''root'' zone (zone_line zone data) (outputSet st) of
                None \<Rightarrow> Inl TypeError
              | Some os \<Rightarrow>
                  Inr (st\<lparr>outputSet := os,
                          manifest := set_add (path_join e [''zoneinfo'', file]) (manifest st)\<rparr>)))"

definition generic_zone_files :: "string list \<Rightarrow> string list \<Rightarrow> string list" where
  "generic_zone_files list etc =
     filter (\<lambda>pathname. endsWith pathname ''.json'' \<and> pathname \<noteq> ''zonetab.json'')
       (list @ map (\<lambda>zone. ''Etc/'' @ zone) etc)"

definition zoneinfo_request :: "env \<Rightarrow> string \<Rightarrow> string list \<Rightarrow> agg \<Rightarrow> error + agg" where
  "zoneinfo_request e dataRoot locs st =
     (let cwdToData = path_join e [dataRoot, ''zoneinfo/zonetab.json'']
      in case readFileSync e cwdToData of
           None \<Rightarrow> Inl (IOError cwdToData)
         | Some data \<Rightarrow>
             (case parse_zonetab e data of
                None \<Rightarrow> Inl SyntaxError
              | Some zonetab \<Rightarrow>
                  (case put_line ''root'' ''zonetab'' (zonetab_line data)
                          (ensure_bucket ''root'' (outputSet st)) of
                     None \<Rightarrow> Inl TypeError
                   | Some os \<Rightarrow>
                       (let st1 = st\<lparr>outputSet := os,
                                      manifest := set_add ''zoneinfo/zonetab.json'' (manifest st)\<rparr>;
                            st2 = fold (region_zone e dataRoot) (zoneSet zonetab (regionSet e locs)) st1;
                            zoneinfoDir = path_join e [dataRoot, ''zoneinfo'']
                        in case readdirSync e zoneinfoDir of
                             None \<Rightarrow> Inl (IOError zoneinfoDir)
                           | Some list \<Rightarrow>
                               (case readdirSync e (path_join e [zoneinfoDir, ''Etc'']) of
                                  None \<Rightarrow> Inl (IOError (path_join e [zoneinfoDir, ''Etc'']))
                                | Some etc \<Rightarrow>
                                    forEachM (generic_zone e dataRoot)
                                      (generic_zone_files list etc) st2)))))"

subsection \<open>Generic locale data\<close>

text \<open>
  The directories tried for one locale, in the order the source pushes them. The second
  one is \<open>l.language\<close> itself: \<open>None\<close> (\<open>undefined\<close>) for a tag without a language.
\<close>

definition parts :: "locale_tag \<Rightarrow> string option list" where
  "parts l =
     [Some ''.'', if language l = [] then None else Some (language l)]
     @ (if script l \<noteq> [] then
          [Some (language_text l @ ''/'' @ script l)]
          @ (if region l \<noteq> [] then [Some (language_text l @ ''/'' @ script l @ ''/'' @ region l)]
             else [])
        else [])
     @ (if region l \<noteq> [] then
          [Some (language_text l @ ''/'' @ region l), Some (''und/'' @ region l)]
        else [])"

text \<open>The partition of a directory: \<open>.\<close> is \<open>root\<close>, every slash becomes a dash.\<close>

definition part_name :: "string \<Rightarrow> string" where
  "part_name localeDir =
     replace_char (CHR ''/'') (CHR ''-'') (if localeDir = ''.'' then ''root'' else localeDir)"

definition generic_line :: "string \<Rightarrow> string \<Rightarrow> string \<Rightarrow> string" where
  "generic_line filename part data =
     ''ilib.data.'' @ toIlibDataName filename
     @ (if part \<noteq> ''root'' then ''_'' @ toIlibDataName part else [])
     @ '' = '' @ data @ '';'' @ [newline]"

text \<open>
  One directory of one locale for one generic feature: the whole body is inside a
  \<open>try\<close>. \<open>path.join\<close> throws a \<open>TypeError\<close> on an argument that is \<open>undefined\<close>, before
  any bucket is made.
\<close>

definition generic_part :: "env \<Rightarrow> string \<Rightarrow> string \<Rightarrow> string option \<Rightarrow> agg \<Rightarrow> agg" where
  "generic_part e dataRoot filename dir st =
     (case dir of
        None \<Rightarrow> log_error TypeError st
      | Some localeDir \<Rightarrow>
          (let cwdToData = path_join e [dataRoot, localeDir, filename @ ''.json''];
               part = part_name localeDir;
               st1 = st\<lparr>outputSet := ensure_bucket part (outputSet st)\<rparr>
           in if existsSync e cwdToData then
                (if \<not> entry_truthy (outputSet st1) part filename then
                   (case readFileSync e cwdToData of
                      None \<Rightarrow> log_error (IOError cwdToData) st1
                    | Some data \<Rightarrow>
                        (case put_line part filename (generic_line filename part data) (outputSet st1) of
                           None \<Rightarrow> log_error TypeError st1
                         | Some os \<Rightarrow>
                             st1\<lparr>outputSet := os,
                                 manifest := set_add (path_join e [localeDir, filename @ ''.json''])
                                               (manifest st1)\<rparr>))
                 else st1)
              else
                (case put_line part filename [] (outputSet st1) of
                   None \<Rightarrow> log_error TypeError st1
                 | Some os \<Rightarrow>
                     st1\<lparr>outputSet := os,
                         manifest := set_add (path_join e [localeDir, filename @ ''.json''])
                                       (manifest st1)\<rparr>)))"

definition generic_request :: "env \<Rightarrow> string \<Rightarrow> string \<Rightarrow> string \<Rightarrow> agg \<Rightarrow> agg" where
  "generic_request e dataRoot locale filename st =
     fold (generic_part e dataRoot filename) (parts (new_Locale e locale)) st"

subsection \<open>One feature name for one locale\<close>

definition process_feature ::
  "env \<Rightarrow> string \<Rightarrow> string list \<Rightarrow> string \<Rightarrow> string \<Rightarrow> agg \<Rightarrow> error + agg" where
  "process_feature e dataRoot locs locale filename st =
     (if filename = ''charset'' \<or> filename = ''charmaps'' then
        charset_request e dataRoot locale filename st
      else
        (case normPattern_exec filename of
           Some (form, scr) \<Rightarrow> Inr (norm_request form scr st)
         | None \<Rightarrow>
             if filename = ''zoneinfo'' then zoneinfo_request e dataRoot locs st
             else Inr (generic_request e dataRoot locale filename st)))"

definition main_loop :: "env \<Rightarrow> string \<Rightarrow> string list \<Rightarrow> string list \<Rightarrow> agg \<Rightarrow> error + agg" where
  "main_loop e dataRoot locs features st =
     forEachM (\<lambda>locale. forEachM (process_feature e dataRoot locs locale) features) locs st"

section \<open>After the main loop\<close>

subsection \<open>Charsets and charmaps\<close>

text \<open>
  Nothing of this block is inside a \<open>try\<close>. The local set \<open>optional\<close> is threaded
  beside the state.
\<close>

definition charsetaliases_line :: "string \<Rightarrow> string" where
  "charsetaliases_line data = ''ilib.data.charsetaliases = '' @ data @ '';'' @ [newline]"

definition charset_line :: "string \<Rightarrow> string \<Rightarrow> string" where
  "charset_line charset data =
     ''ilib.data.charset_'' @ toIlibDataName charset @ '' = '' @ data @ '';'' @ [newline]"

definition charmaps_line :: "string \<Rightarrow> string \<Rightarrow> string" where
  "charmaps_line charset data =
     ''ilib.data.charmaps_'' @ toIlibDataName charset @ '' = '' @ data @ '';'' @ [newline]"

definition add_charsetaliases :: "env \<Rightarrow> string \<Rightarrow> agg \<Rightarrow> error + agg" where
  "add_charsetaliases e dataRoot st =
     (let cwdToData = path_join e [dataRoot, ''charsetaliases.json'']
      in if \<not> entry_truthy (outputSet st) ''root'' ''charsetaliases'' \<and> existsSync e cwdToData then
           (case readFileSync e cwdToData of
              None \<Rightarrow> Inl (IOError cwdToData)
            | Some data \<Rightarrow>
                (case put_line ''root'' ''charsetaliases'' (charsetaliases_line data) (outputSet st) of
                   None \<Rightarrow> Inl TypeError
                 | Some os \<Rightarrow>
                     Inr (st\<lparr>outputSet := os,
                             manifest := set_add ''charsetaliases.json'' (manifest st)\<rparr>)))
         else Inr st)"

definition add_charset ::
  "env \<Rightarrow> string \<Rightarrow> string \<Rightarrow> agg \<times> string list \<Rightarrow> error + (agg \<times> string list)" where
  "add_charset e dataRoot charset sto =
     (let st = fst sto; optional = snd sto;
          cwdToData = path_join e [dataRoot, ''charset'', charset @ ''.json''];
          filename = ''charset_'' @ charset
      in if \<not> entry_truthy (outputSet st) ''root'' filename \<and> existsSync e cwdToData then
           (case readFileSync e cwdToData of
              None \<Rightarrow> Inl (IOError cwdToData)
            | Some data \<Rightarrow>
                (case put_line ''root'' filename (charset_line charset data) (outputSet st) of
                   None \<Rightarrow> Inl TypeError
                 | Some os \<Rightarrow>
                     (case charset_optional e data of
                        None \<Rightarrow> Inl SyntaxError
                      | Some opt \<Rightarrow>
                          Inr (st\<lparr>outputSet := os,
                                  manifest := set_add (path_join e [''charset'', charset @ ''.json''])
                                                (manifest st)\<rparr>,
                               if opt then set_add charset optional else optional))))
         else Inr (st, optional))"

definition add_charmap :: "env \<Rightarrow> string \<Rightarrow> string list \<Rightarrow> string \<Rightarrow> agg \<Rightarrow> error + agg" where
  "add_charmap e dataRoot optional charset st =
     (let cwdToData = path_join e [dataRoot, ''charmaps'', charset @ ''.json''];
          filename = ''charmaps_'' @ charset
      in if charset \<notin> set optional \<and> \<not> entry_truthy (outputSet st) ''root'' filename
            \<and> existsSync e cwdToData then
           (case readFileSync e cwdToData of
              None \<Rightarrow> Inl (IOError cwdToData)
            | Some data \<Rightarrow>
                (case put_line ''root'' filename (charmaps_line charset data) (outputSet st) of
                   None \<Rightarrow> Inl TypeError
                 | Some os \<Rightarrow>
                     Inr (st\<lparr>outputSet := os,
                             manifest := set_add (path_join e [''charmaps'', charset @ ''.json''])
                                           (manifest st)\<rparr>)))
         else Inr st)"

definition charset_phase :: "env \<Rightarrow> string \<Rightarrow> agg \<Rightarrow> error + agg" where
  "charset_phase e dataRoot st =
     (if charsets st = [] then Inr st
      else
        (case add_charsetaliases e dataRoot (st\<lparr>outputSet := ensure_bucket ''root'' (outputSet st)\<rparr>) of
           Inl err \<Rightarrow> Inl err
         | Inr st1 \<Rightarrow>
             (case forEachM (add_charset e dataRoot) (charsets st1) (st1, []) of
                Inl err \<Rightarrow> Inl err
              | Inr (st2, optional) \<Rightarrow>
                  forEachM (\<lambda>entry. forEachM (add_charmap e dataRoot optional) (snd entry))
                    (charmaps st2) st2)))"

subsection \<open>Normalization forms\<close>

text \<open>The body of \<open>addForm\<close> is inside a \<open>try\<close> once the script is truthy.\<close>

definition norm_line :: "string \<Rightarrow> string \<Rightarrow> string \<Rightarrow> string" where
  "norm_line form scr data =
     ''// form '' @ form @ '' script '' @ scr @ [newline]
     @ ''ilib.extend(ilib.data.norm.'' @ form @ '', '' @ data @ '');'' @ [newline]"

definition addForm :: "env \<Rightarrow> string \<Rightarrow> string \<Rightarrow> string \<Rightarrow> agg \<Rightarrow> agg" where
  "addForm e dataRoot form scr st =
     (if scr \<noteq> [] then
        (let cwdToData = path_join e [dataRoot, form, scr @ ''.json'']
         in if existsSync e cwdToData then
              (case readFileSync e cwdToData of
                 None \<Rightarrow> log_error (IOError cwdToData) st
               | Some data \<Rightarrow>
                   (case put_line ''root'' (form @ ''/'' @ scr) (norm_line form scr data) (outputSet st) of
                      None \<Rightarrow> log_error TypeError st
                    | Some os \<Rightarrow>
                        st\<lparr>outputSet := os,
                           manifest := set_add (path_join e [form, scr @ ''.json'']) (manifest st)\<rparr>))
            else st)
      else st)"

text \<open>
  \<open>normalizations\<close> is a plain object and \<open>normalizations.size\<close> reads its property
  \<open>size\<close>: \<open>undefined\<close> unless a form of that name was stored, and then a \<open>Set\<close>. Neither is
  strictly equal to a number.
\<close>

definition size_is :: "(string list) obj \<Rightarrow> nat \<Rightarrow> bool" where
  "size_is ns n = (case obj_get ns ''size'' of None \<Rightarrow> False | Some s \<Rightarrow> False)"

definition form_scripts :: "(string list) obj \<Rightarrow> string list \<Rightarrow> string list \<Rightarrow> string list" where
  "form_scripts ns scripts requested =
     (if size_is ns 0 \<or> ([] \<in> set requested \<and> size_is ns 1) then scripts else requested)"

definition norm_form :: "env \<Rightarrow> string \<Rightarrow> string list \<Rightarrow> string \<times> string list \<Rightarrow> agg \<Rightarrow> agg" where
  "norm_form e dataRoot scripts entry st =
     (let form = fst entry; requested = snd entry
      in if ''all'' \<in> set requested then addForm e dataRoot form ''all'' st
         else fold (addForm e dataRoot form) (form_scripts (normalizations st) scripts requested) st)"

definition norm_phase :: "env \<Rightarrow> string \<Rightarrow> string list \<Rightarrow> agg \<Rightarrow> agg" where
  "norm_phase e dataRoot scripts st = fold (norm_form e dataRoot scripts) (normalizations st) st"

subsection \<open>The scripts of the requested locales\<close>

definition likely_scripts :: "env \<Rightarrow> string list \<Rightarrow> string list" where
  "likely_scripts e locs =
     fold (\<lambda>locale scripts.
             if likely_script e locale \<noteq> [] then set_add (likely_script e locale) scripts
             else scripts)
       locs []"

subsection \<open>The whole aggregation\<close>

definition aggregate :: "env \<Rightarrow> string \<Rightarrow> string list \<Rightarrow> string list \<Rightarrow> error + agg" where
  "aggregate e dataRoot locs features =
     (case main_loop e dataRoot locs features init_agg of
        Inl err \<Rightarrow> Inl err
      | Inr st \<Rightarrow>
          (case charset_phase e dataRoot st of
             Inl err \<Rightarrow> Inl err
           | Inr st' \<Rightarrow> Inr (norm_phase e dataRoot (likely_scripts e locs) st')))"

section \<open>Writing the manifests and the bundles\<close>

text \<open>
  \<open>sources\<close> maps an output path to the text written there. The local manifest lists
  \<open>toArray(manifest)\<close>, the set in insertion order; the remote manifest lists the
  partitions of \<open>outputSet\<close>. A write that fails throws and ends the pass.
\<close>

definition manifest_text :: "env \<Rightarrow> string list \<Rightarrow> string" where
  "manifest_text e files = ''module.exports='' @ stringify_files e files @ '';'' @ [newline]"

definition bundle_text :: "string obj \<Rightarrow> string" where
  "bundle_text dataFiles =
     ''module.exports.installLocale = function(ilib) {'' @ [newline]
     @ concat (map snd dataFiles) @ ''};'' @ [newline]"

definition write_bundle ::
  "env \<Rightarrow> string \<Rightarrow> string \<times> string obj \<Rightarrow> string obj \<Rightarrow> error + string obj" where
  "write_bundle e outputPath entry sources =
     (let outputFile = path_join e [outputPath, fst entry @ ''.js'']
      in if writable e outputFile then Inr (obj_set outputFile (bundle_text (snd entry)) sources)
         else Inl (IOError outputFile))"

definition emit_sources :: "env \<Rightarrow> string \<Rightarrow> agg \<Rightarrow> error + string obj" where
  "emit_sources e outputDir st =
     (let outputPath = path_join e [outputDir, ''locales''];
          localFile = path_join e [outputPath, ''localmanifest.js''];
          remoteFile = path_join e [outputPath, ''remotemanifest.js''];
          sources1 = obj_set localFile (manifest_text e (manifest st)) [];
          sources2 = obj_set remoteFile
                       (manifest_text e (map (\<lambda>file. file @ ''.js'') (obj_keys (outputSet st))))
                       sources1
      in if \<not> writable e localFile then Inl (IOError localFile)
         else if \<not> writable e remoteFile then Inl (IOError remoteFile)
         else forEachM (write_bundle e outputPath) (outputSet st) sources2)"

section \<open>The process-wide state and the two entry points\<close>

record plugin_state =
  localeData :: "string list"
  localeDataEmitted :: "string obj option"

text \<open>One pass without the cache: what \<open>emitLocaleData\<close> does after its first test.\<close>

definition run_pass :: "env \<Rightarrow> options \<Rightarrow> string list \<Rightarrow> error + string obj" where
  "run_pass e opts features =
     (case calcOutputDir e opts of
        Inl err \<Rightarrow> Inl err
      | Inr outputDir \<Rightarrow>
          (case calcDataRoot e opts of
             Inl err \<Rightarrow> Inl err
           | Inr dataRoot \<Rightarrow>
               (case aggregate e dataRoot (locales opts) features of
                  Inl err \<Rightarrow> Inl err
                | Inr st \<Rightarrow> emit_sources e outputDir st)))"

text \<open>
  \<open>emitLocaleData\<close> returns its result (or the error it throws) and the state. The cache
  \<open>localeDataEmitted\<close> holds an object, which is truthy even when empty.
\<close>

definition emitLocaleData :: "env \<Rightarrow> options \<Rightarrow> plugin_state \<Rightarrow> (error + string obj) \<times> plugin_state" where
  "emitLocaleData e opts g =
     (case localeDataEmitted g of
        Some sources \<Rightarrow> (Inr sources, g)
      | None \<Rightarrow>
          (case run_pass e opts (localeData g) of
             Inl err \<Rightarrow> (Inl err, g)
           | Inr sources \<Rightarrow> (Inr sources, g\<lparr>localeDataEmitted := Some sources\<rparr>)))"

definition addData :: "string \<Rightarrow> plugin_state \<Rightarrow> plugin_state" where
  "addData data g =
     (let g1 = (if data \<notin> set (localeData g) then g\<lparr>localeDataEmitted := None\<rparr> else g)
      in g1\<lparr>localeData := set_add data (localeData g1)\<rparr>)"

section \<open>The partition chain as the specification words it\<close>

text \<open>
  The order the specification gives for the partitions of one tag: \<open>root\<close>, the language,
  language-script if a script is present, language-script-region if script and region
  are present, language-region if a region is present, und-region if a region is present.
\<close>

definition locale_chain :: "locale_tag \<Rightarrow> string list" where
  "locale_chain l =
     [''root'', language l]
     @ (if script l \<noteq> [] then [language l @ ''-'' @ script l] else [])
     @ (if script l \<noteq> [] \<and> region l \<noteq> [] then [language l @ ''-'' @ script l @ ''-'' @ region l] else [])
     @ (if region l \<noteq> [] then [language l @ ''-'' @ region l] else [])
     @ (if region l \<noteq> [] then [''und-'' @ region l] else [])"

section \<open>The zone entries as the specification words them\<close>

text \<open>
  An identifier is emitted with \<open>-\<close> rewritten to \<open>m\<close> and \<open>+\<close> to \<open>p\<close>. The generic
  zone files are the \<open>.json\<close> files of the zoneinfo directory other than
  \<open>zonetab.json\<close>, and the \<open>.json\<close> files of its \<open>Etc\<close> subdirectory, named from the
  zoneinfo directory.
\<close>

definition zone_identifier :: "string \<Rightarrow> string" where
  "zone_identifier zone =
     map (\<lambda>c. if c = CHR ''-'' then CHR ''m'' else if c = CHR ''+'' then CHR ''p'' else c) zone"

definition generic_zone_file :: "string list \<Rightarrow> string list \<Rightarrow> string \<Rightarrow> bool" where
  "generic_zone_file list etc f =
     (endsWith f ''.json''
      \<and> (f \<in> set list \<and> f \<noteq> ''zonetab.json'' \<or> f \<in> (\<lambda>g. ''Etc/'' @ g) ` set etc))"

section \<open>A concrete environment for the examples\<close>

text \<open>
  \<open>posix_join\<close> agrees with \<open>path.join\<close> on arguments that are \<open>.\<close>, empty, or paths
  with no \<open>.\<close> or \<open>..\<close> segment and no doubled or trailing slash; \<open>posix_basename\<close>
  agrees with \<open>path.basename\<close> on such paths.
\<close>

definition posix_join :: "string list \<Rightarrow> string" where
  "posix_join ps =
     (case filter (\<lambda>p. p \<noteq> [] \<and> p \<noteq> ''.'') ps of
        [] \<Rightarrow> ''.''
      | q # qs \<Rightarrow> foldl (\<lambda>a b. a @ ''/'' @ b) q qs)"

definition posix_basename :: "string \<Rightarrow> string \<Rightarrow> string" where
  "posix_basename p ext =
     (let base = rev (takeWhile (\<lambda>c. c \<noteq> CHR ''/'') (rev p))
      in if p = ext then []
         else if endsWith base ext \<and> base \<noteq> ext then take (length base - length ext) base
         else base)"

definition ex_Locale :: "string \<Rightarrow> locale_tag" where
  "ex_Locale spec =
     (if spec = ''en-US'' then \<lparr>language = ''en'', script = [], region = ''US''\<rparr>
      else if spec = ''en-GB'' then \<lparr>language = ''en'', script = [], region = ''GB''\<rparr>
      else if spec = ''zh-Hans-CN'' then \<lparr>language = ''zh'', script = ''Hans'', region = ''CN''\<rparr>
      else if spec = ''US'' then \<lparr>language = [], script = [], region = ''US''\<rparr>
      else \<lparr>language = spec, script = [], region = []\<rparr>)"

definition ex_likely_script :: "string \<Rightarrow> string" where
  "ex_likely_script spec =
     (if spec = ''en-US'' \<or> spec = ''en-GB'' then ''Latn''
      else if spec = ''zh-Hans-CN'' then ''Hans'' else [])"

definition ex_zonetab_text :: string where
  \<open>ex_zonetab_text = ''{"US":["America/New_York"],"GB":["Europe/London"]}''\<close>

definition ex_optional_text :: string where
  \<open>ex_optional_text = ''{"optional":true}''\<close>

fun join_with :: "string \<Rightarrow> string list \<Rightarrow> string" where
  "join_with sep [] = []"
| "join_with sep [x] = x"
| "join_with sep (x # y # ys) = x @ sep @ join_with sep (y # ys)"

definition ex_stringify :: "string list \<Rightarrow> string" where
  \<open>ex_stringify files =
     ''{"files":['' @ join_with '','' (map (\<lambda>f. [dquote] @ f @ [dquote]) files) @ '']}''\<close>

text \<open>
  The environment of the examples: \<open>files\<close> lists the paths that exist with their
  contents (\<open>None\<close> for a path that exists and cannot be read), \<open>dirs\<close> the directory
  listings. The language \<open>en\<close> resolves to the charset \<open>LATIN\<close>.
\<close>

definition ex_env :: "(string \<times> string option) list \<Rightarrow> (string \<times> string list) list \<Rightarrow> env" where
  "ex_env files dirs =
     \<lparr>existsSync = (\<lambda>p. map_of files p \<noteq> None),
      readFileSync = (\<lambda>p. case map_of files p of Some (Some d) \<Rightarrow> Some d | _ \<Rightarrow> None),
      readdirSync = map_of dirs,
      require_json = (\<lambda>p. if p = ''/ilib/locale/lang2charset.json''
                           then Some (map_of [(''en'', [''LATIN''])]) else None),
      parse_zonetab = (\<lambda>d. if d = ex_zonetab_text
                            then Some (map_of [(''US'', [''America/New_York'']),
                                               (''GB'', [''Europe/London''])])
                            else None),
      charset_optional = (\<lambda>d. Some (d = ex_optional_text)),
      new_Locale = ex_Locale,
      likely_script = ex_likely_script,
      path_join = posix_join,
      path_basename = posix_basename,
      path_isAbsolute = (\<lambda>p. take 1 p = ''/''),
      path_resolve = (\<lambda>p. p),
      cwd = ''/work'',
      module_paths = [],
      writable = (\<lambda>p. True),
      stringify_files = ex_stringify\<rparr>"

definition ex_options :: "string list \<Rightarrow> options" where
  "ex_options locs =
     \<lparr>ilibRoot = ''/ilib'', locales = locs, tempDir = Some ''/out'', compilation = [],
      debug = False\<rparr>"

definition ex_files :: "(string \<times> string option) list" where
  "ex_files =
     [(''/ilib/locale/dateformat.json'', Some ''{root}''),
      (''/ilib/locale/en/dateformat.json'', Some ''{en}''),
      (''/ilib/locale/nfc/Latn.json'', Some ''{latn}''),
      (''/ilib/locale/zoneinfo/zonetab.json'', Some ex_zonetab_text),
      (''/ilib/locale/zoneinfo/America/New_York.json'', Some ''{ny}''),
      (''/ilib/locale/zoneinfo/UTC.json'', Some ''{utc}''),
      (''/ilib/locale/zoneinfo/Etc/GMT+1.json'', Some ''{gmt1}'')]"

definition ex_dirs :: "(string \<times> string list) list" where
  "ex_dirs =
     [(''/ilib/locale/zoneinfo'', [''America'', ''Etc'', ''UTC.json'', ''zonetab.json'']),
      (''/ilib/locale/zoneinfo/Etc'', [''GMT+1.json''])]"

text \<open>The same files, one of them present and unreadable.\<close>

definition ex_unreadable :: "string \<Rightarrow> (string \<times> string option) list" where
  "ex_unreadable p = map (\<lambda>entry. if fst entry = p then (p, None) else entry) ex_files"

text \<open>
  Zone data where two files have the base name \<open>UTC\<close> and a file of the \<open>Etc\<close>
  subdirectory has the base name \<open>zonetab\<close>.
\<close>

definition ex_clash_files :: "(string \<times> string option) list" where
  "ex_clash_files =
     [(''/ilib/locale/zoneinfo/zonetab.json'', Some ex_zonetab_text),
      (''/ilib/locale/zoneinfo/America/New_York.json'', Some ''{ny}''),
      (''/ilib/locale/zoneinfo/UTC.json'', Some ''{utc}''),
      (''/ilib/locale/zoneinfo/Etc/UTC.json'', Some ''{etc-utc}''),
      (''/ilib/locale/zoneinfo/Etc/zonetab.json'', Some ''{etc-zonetab}'')]"

definition ex_clash_dirs :: "(string \<times> string list) list" where
  "ex_clash_dirs =
     [(''/ilib/locale/zoneinfo'', [''America'', ''Etc'', ''UTC.json'', ''zonetab.json'']),
      (''/ilib/locale/zoneinfo/Etc'', [''UTC.json'', ''zonetab.json''])]"

text \<open>Options that on their own make the pass throw: no \<open>tempDir\<close>, no ilib root.\<close>

definition ex_other_options :: options where
  "ex_other_options =
     \<lparr>ilibRoot = [], locales = [''zh-Hans-CN''], tempDir = None, compilation = ''uncompiled'',
      debug = True\<rparr>"





section \<open>Predicates of the proofs\<close>

text \<open>No partition occurs twice in \<open>outputSet\<close> and no data key twice in a bucket.\<close>

definition buckets_distinct :: "(string obj) obj \<Rightarrow> bool" where
  "buckets_distinct os =
     (distinct (obj_keys os) \<and> list_all (\<lambda>entry. distinct (obj_keys (snd entry))) os)"

definition agg_distinct :: "agg \<Rightarrow> bool" where
  "agg_distinct st = buckets_distinct (outputSet st)"

text \<open>
  The calls of \<open>addForm\<close> that the loop over \<open>normalizations\<close> makes, in order; whether a
  call reaches the assignment to the root bucket (its script is truthy and its file
  exists); and the error such a call throws inside its \<open>try\<close> when there is no root
  bucket: that of \<open>readFileSync\<close>, or the \<open>TypeError\<close> of the assignment.
\<close>

definition addForm_path :: "env \<Rightarrow> string \<Rightarrow> string \<times> string \<Rightarrow> string" where
  "addForm_path e dataRoot call = path_join e [dataRoot, fst call, snd call @ ''.json'']"

definition addForm_calls :: "(string list) obj \<Rightarrow> string list \<Rightarrow> (string list) obj \<Rightarrow> (string \<times> string) list" where
  "addForm_calls ns scripts entries =
     concat (map (\<lambda>entry. if ''all'' \<in> set (snd entry) then [(fst entry, ''all'')]
                          else map (Pair (fst entry)) (form_scripts ns scripts (snd entry)))
               entries)"

definition addForm_attempted :: "env \<Rightarrow> string \<Rightarrow> string \<times> string \<Rightarrow> bool" where
  "addForm_attempted e dataRoot call =
     (snd call \<noteq> [] \<and> existsSync e (addForm_path e dataRoot call))"

definition addForm_caught :: "env \<Rightarrow> string \<Rightarrow> string \<times> string \<Rightarrow> error" where
  "addForm_caught e dataRoot call =
     (case readFileSync e (addForm_path e dataRoot call) of
        None \<Rightarrow> IOError (addForm_path e dataRoot call)
      | Some data \<Rightarrow> TypeError)"

text \<open>
  For the zoneinfo request: the file of a zone; whether the loop over the zones of the
  regions stores the zone (its file exists and can be read); and the state after the
  zonetab, the zones \<open>Z\<close> and the generic zone files \<open>F\<close> have been stored: \<open>root\<close> is the
  only partition, its bucket holds the zonetab line, the line of every stored zone of
  \<open>Z\<close> and of every file of \<open>F\<close>, and no other key.
\<close>

definition zone_path :: "env \<Rightarrow> string \<Rightarrow> string \<Rightarrow> string" where
  "zone_path e dataRoot zone = path_join e [dataRoot, ''zoneinfo'', zone @ ''.json'']"

definition zone_stored :: "env \<Rightarrow> string \<Rightarrow> string \<Rightarrow> bool" where
  "zone_stored e dataRoot z =
     (existsSync e (zone_path e dataRoot z) \<and> readFileSync e (zone_path e dataRoot z) \<noteq> None)"

definition zi_inv :: "env \<Rightarrow> string \<Rightarrow> string \<Rightarrow> string set \<Rightarrow> string set \<Rightarrow> agg \<Rightarrow> bool" where
  "zi_inv e dataRoot table Z F st =
     (\<exists>bucket. outputSet st = [(''root'', bucket)] \<and> charsets st = [] \<and> normalizations st = []
        \<and> obj_get bucket ''zonetab'' = Some (zonetab_line table)
        \<and> (\<forall>z d. z \<in> Z \<longrightarrow> existsSync e (zone_path e dataRoot z) \<longrightarrow>
               readFileSync e (zone_path e dataRoot z) = Some d \<longrightarrow>
               obj_get bucket z = Some (zone_line z d))
        \<and> (\<forall>f d. f \<in> F \<longrightarrow> readFileSync e (path_join e [dataRoot, ''zoneinfo'', f]) = Some d \<longrightarrow>
               obj_get bucket (path_basename e f ''.json'')
                 = Some (zone_line (path_basename e f ''.json'') d))
        \<and> (\<forall>k. k \<in> set (obj_keys bucket) \<longleftrightarrow>
               k = ''zonetab'' \<or> k \<in> Z \<and> zone_stored e dataRoot k
               \<or> (\<exists>f. f \<in> F \<and> k = path_basename e f ''.json'')))"

text \<open>
  The root bucket: the line stored under a key and the keys it holds (none while the
  bucket does not exist).
\<close>

definition root_get :: "(string obj) obj \<Rightarrow> string \<Rightarrow> string option" where
  "root_get os k = (case obj_get os ''root'' of None \<Rightarrow> None | Some bucket \<Rightarrow> obj_get bucket k)"

definition root_keys :: "(string obj) obj \<Rightarrow> string list" where
  "root_keys os = (case obj_get os ''root'' of None \<Rightarrow> [] | Some bucket \<Rightarrow> obj_keys bucket)"










section \<open>Properties of sets and objects\<close>

lemma set_set_add: "set (set_add x xs) = insert x (set xs)"
  by (auto simp: set_add_def)

lemma distinct_set_add: "distinct xs \<Longrightarrow> distinct (set_add x xs)"
  by (simp add: set_add_def)

lemma set_fold_set_add: "set (fold set_add xs ys) = set xs \<union> set ys"
  by (induction xs arbitrary: ys) (auto simp: set_set_add)

lemma obj_keys_Nil: "obj_keys [] = []"
  by (simp add: obj_keys_def)

lemma obj_keys_obj_set: "obj_keys (obj_set k v ob) = set_add k (obj_keys ob)"
  by (induction ob) (auto simp: obj_keys_def set_add_def)

lemma set_obj_keys_obj_set: "set (obj_keys (obj_set k v ob)) = insert k (set (obj_keys ob))"
  by (simp add: obj_keys_obj_set set_set_add)

lemma distinct_obj_set: "distinct (obj_keys ob) \<Longrightarrow> distinct (obj_keys (obj_set k v ob))"
  by (simp add: obj_keys_obj_set distinct_set_add)

lemma obj_get_Nil: "obj_get [] k = None"
  by (simp add: obj_get_def)

lemma obj_get_obj_set: "obj_get (obj_set k v ob) k' = (if k' = k then Some v else obj_get ob k')"
  by (induction ob) (auto simp: obj_get_def)

lemma obj_get_in_set: "obj_get ob k = Some v \<Longrightarrow> (k, v) \<in> set ob"
  by (simp add: obj_get_def map_of_SomeD)

lemma list_all_obj_set: "list_all P ob \<Longrightarrow> P (k, v) \<Longrightarrow> list_all P (obj_set k v ob)"
  by (induction ob) auto


lemma replace_char_id: "a \<notin> set s \<Longrightarrow> replace_char a b s = s"
  by (induction s) (auto simp: replace_char_def)

lemma replace_char_append: "replace_char a b (s @ t) = replace_char a b s @ replace_char a b t"
  by (simp add: replace_char_def)

lemma replace_char_Cons:
  "replace_char a b (c # s) = (if c = a then b else c) # replace_char a b s"
  by (simp add: replace_char_def)

section \<open>Properties of loops\<close>

lemma forEachM_invariant:
  assumes "\<And>x s s'. P s \<Longrightarrow> f x s = Inr s' \<Longrightarrow> P s'"
    and "P s" and "forEachM f xs s = Inr s'"
  shows "P s'"
  using assms(2,3)
proof (induction xs arbitrary: s)
  case Nil
  then show ?case by simp
next
  case (Cons x xs)
  then show ?case
    by (auto split: sum.splits intro: assms(1))
qed


lemma forEachM_preserves:
  assumes "\<And>x s s'. f x s = Inr s' \<Longrightarrow> g s' = g s"
    and "forEachM f xs s = Inr s'"
  shows "g s' = g s"
  using assms(2)
proof (induction xs arbitrary: s)
  case Nil
  then show ?case by simp
next
  case (Cons x xs)
  then obtain s1 where a: "f x s = Inr s1" and b: "forEachM f xs s1 = Inr s'"
    by (auto split: sum.splits)
  from Cons.IH[OF b] assms(1)[OF a] show ?case by simp
qed



lemma fold_invariant:
  assumes "\<And>x s. P s \<Longrightarrow> P (f x s)" and "P s"
  shows "P (fold f xs s)"
  using assms(2) by (induction xs arbitrary: s) (auto intro: assms(1))


lemma fold_preserves:
  assumes "\<And>x s. g (f x s) = g s"
  shows "g (fold f xs s) = g s"
  by (induction xs arbitrary: s) (simp_all add: assms)



section \<open>The four kinds of feature name\<close>



lemma normPattern_exec_zoneinfo: "normPattern_exec ''zoneinfo'' = None"
  by code_simp


lemma process_feature_norm:
  assumes "filename \<noteq> ''charset''" "filename \<noteq> ''charmaps''" "normPattern_exec filename = Some m"
  shows "process_feature e dataRoot locs loc filename st = Inr (norm_request (fst m) (snd m) st)"
  using assms by (simp only: process_feature_def simp_thms if_False option.case split_beta)

lemma process_feature_zoneinfo:
  "process_feature e dataRoot locs loc ''zoneinfo'' st = zoneinfo_request e dataRoot locs st"
  unfolding process_feature_def normPattern_exec_zoneinfo by simp

lemma process_feature_generic:
  assumes "filename \<noteq> ''charset''" "filename \<noteq> ''charmaps''" "normPattern_exec filename = None"
    "filename \<noteq> ''zoneinfo''"
  shows "process_feature e dataRoot locs loc filename st
           = Inr (generic_request e dataRoot loc filename st)"
  using assms by (simp only: process_feature_def simp_thms if_False option.case)

section \<open>The partition order of one locale\<close>

lemma part_name_plain: "CHR ''/'' \<notin> set s \<Longrightarrow> s \<noteq> ''.'' \<Longrightarrow> part_name s = s"
  by (simp add: part_name_def replace_char_id)

lemma dir_not_dot: "a @ ''/'' @ b \<noteq> ''.''"
proof
  assume "a @ ''/'' @ b = ''.''"
  then have "set (a @ ''/'' @ b) = set ''.''" by simp
  then show False by auto
qed

lemma part_name_dir:
  "part_name (a @ ''/'' @ b) =
     replace_char (CHR ''/'') (CHR ''-'') a @ ''-'' @ replace_char (CHR ''/'') (CHR ''-'') b"
  using dir_not_dot[of a b] by (simp add: part_name_def replace_char_def)

lemma part_name_dot: "part_name ''.'' = ''root''"
  by (simp add: part_name_def replace_char_def)

text \<open>
  C1. For a tag that has a language, and whose components hold no slash (the language
  not being the directory \<open>.\<close>), every directory that \<open>emitLocaleData\<close> tries for a
  generic feature is defined, and the directories name the partitions root, language,
  language-script (if a script is present), language-script-region (if script and region
  are present), language-region and und-region (if a region is present), in exactly
  this order: the region-based entries come after the script-based ones.
\<close>

theorem parts_order:
  assumes "language l \<noteq> []"
    and "CHR ''/'' \<notin> set (language l)" "CHR ''/'' \<notin> set (script l)" "CHR ''/'' \<notin> set (region l)"
    and "language l \<noteq> ''.''"
  shows "map (map_option part_name) (parts l) = map Some (locale_chain l)"
proof -
  have lt: "language_text l = language l"
    using assms(1) by (simp add: language_text_def)
  have lang: "part_name (language l) = language l"
    using assms by (simp add: part_name_plain)
  have ls: "part_name (language l @ ''/'' @ script l) = language l @ ''-'' @ script l"
    unfolding part_name_dir using assms by (simp add: replace_char_id)
  have lsr: "part_name (language l @ ''/'' @ script l @ ''/'' @ region l)
               = language l @ ''-'' @ script l @ ''-'' @ region l"
    using assms part_name_dir[of "language l" "script l @ ''/'' @ region l"]
    by (simp add: replace_char_id replace_char_append replace_char_Cons)
  have lr: "part_name (language l @ ''/'' @ region l) = language l @ ''-'' @ region l"
    unfolding part_name_dir using assms by (simp add: replace_char_id)
  have ur: "part_name (''und/'' @ region l) = ''und-'' @ region l"
    using assms part_name_dir[of "''und''" "region l"]
    by (simp add: replace_char_id replace_char_Cons)
  show ?thesis
    unfolding parts_def locale_chain_def lt
    using assms(1) lang ls lsr lr ur by (simp add: part_name_dot)
qed

theorem parts_order_witness:
  "map (map_option part_name) (parts (ex_Locale ''zh-Hans-CN''))
     = map Some [''root'', ''zh'', ''zh-Hans'', ''zh-Hans-CN'', ''zh-CN'', ''und-CN'']
   \<and> map (map_option part_name) (parts (ex_Locale ''en-US''))
       = map Some [''root'', ''en'', ''en-US'', ''und-US'']"
  using parts_order[of "ex_Locale ''zh-Hans-CN''"] parts_order[of "ex_Locale ''en-US''"]
  by (simp add: ex_Locale_def locale_chain_def)

section \<open>The emission cache\<close>

text \<open>
  C4. \<open>addData\<close> with a name that is already registered leaves the cache
  \<open>localeDataEmitted\<close> as it is; with a new name it clears the cache; every name that was
  registered stays registered, and the name given is registered afterwards.
\<close>

theorem addData_cache:
  "(data \<in> set (localeData g) \<longrightarrow> localeDataEmitted (addData data g) = localeDataEmitted g)
   \<and> (data \<notin> set (localeData g) \<longrightarrow> localeDataEmitted (addData data g) = None)
   \<and> set (localeData g) \<subseteq> set (localeData (addData data g))
   \<and> data \<in> set (localeData (addData data g))"
  by (auto simp: addData_def Let_def set_set_add)

theorem addData_cache_witness:
  "localeDataEmitted (addData ''dateformat''
      \<lparr>localeData = [''dateformat''], localeDataEmitted = Some [(''/out/locales/root.js'', ''x'')]\<rparr>)
     = Some [(''/out/locales/root.js'', ''x'')]
   \<and> localeDataEmitted (addData ''zoneinfo''
      \<lparr>localeData = [''dateformat''], localeDataEmitted = Some [(''/out/locales/root.js'', ''x'')]\<rparr>)
     = None
   \<and> localeData (addData ''zoneinfo''
      \<lparr>localeData = [''dateformat''], localeDataEmitted = Some [(''/out/locales/root.js'', ''x'')]\<rparr>)
     = [''dateformat'', ''zoneinfo'']"
  using addData_cache[of "''dateformat''"
      "\<lparr>localeData = [''dateformat''], localeDataEmitted = Some [(''/out/locales/root.js'', ''x'')]\<rparr>"]
    addData_cache[of "''zoneinfo''"
      "\<lparr>localeData = [''dateformat''], localeDataEmitted = Some [(''/out/locales/root.js'', ''x'')]\<rparr>"]
  by (simp add: addData_def set_add_def)

text \<open>
  C3. A second call of \<open>emitLocaleData\<close>, in the state the first call left and with the
  same environment and options, returns what the first call returned (the same paths
  with the same texts) and leaves the state as it is.
\<close>

theorem emit_twice:
  "emitLocaleData e opts (snd (emitLocaleData e opts g)) = emitLocaleData e opts g"
  by (simp add: emitLocaleData_def split: option.splits sum.splits)

text \<open>
  C10. Once \<open>emitLocaleData\<close> has returned its sources, a later call returns the same
  sources and leaves the state alone, whatever environment and options it is given;
  this stays so after \<open>addData\<close> of a registered name; \<open>addData\<close> of a new name makes the
  next call run a fresh pass over the extended feature set.
\<close>

theorem cache_ignores_options:
  assumes "emitLocaleData e opts g = (Inr sources, g')"
  shows "emitLocaleData e' opts' g' = (Inr sources, g')
     \<and> (data \<in> set (localeData g') \<longrightarrow>
          emitLocaleData e' opts' (addData data g') = (Inr sources, addData data g'))
     \<and> (data \<notin> set (localeData g') \<longrightarrow>
          emitLocaleData e' opts' (addData data g') =
            (case run_pass e' opts' (localeData g' @ [data]) of
               Inl err \<Rightarrow> (Inl err, addData data g')
             | Inr s \<Rightarrow> (Inr s, (addData data g')\<lparr>localeDataEmitted := Some s\<rparr>)))"
  using assms
  by (auto simp: emitLocaleData_def addData_def Let_def set_add_def split: option.splits sum.splits)

theorem cache_ignores_options_witness:
  "(case emitLocaleData (ex_env ex_files ex_dirs) (ex_options [''en-US''])
           \<lparr>localeData = [''dateformat''], localeDataEmitted = None\<rparr> of
      (Inr sources, g') \<Rightarrow>
        emitLocaleData (ex_env [] []) ex_other_options g' = (Inr sources, g')
        \<and> emitLocaleData (ex_env [] []) ex_other_options (addData ''dateformat'' g')
            = (Inr sources, addData ''dateformat'' g')
        \<and> localeDataEmitted (addData ''zoneinfo'' g') = None
    | (Inl err, g') \<Rightarrow> False)
   \<and> fst (emitLocaleData (ex_env [] []) ex_other_options
            \<lparr>localeData = [''dateformat''], localeDataEmitted = None\<rparr>) = Inl TypeError"
proof -
  let ?r = "emitLocaleData (ex_env ex_files ex_dirs) (ex_options [''en-US''])
              \<lparr>localeData = [''dateformat''], localeDataEmitted = None\<rparr>"
  have ok: "(case fst ?r of Inr s \<Rightarrow> True | Inl err \<Rightarrow> False)"
    by code_simp
  then obtain sources g' where eq: "?r = (Inr sources, g')"
    by (cases ?r; cases "fst ?r") auto
  have mem: "''dateformat'' \<in> set (localeData g')"
    using eq by (auto simp: emitLocaleData_def split: sum.splits)
  have other: "fst (emitLocaleData (ex_env [] []) ex_other_options
            \<lparr>localeData = [''dateformat''], localeDataEmitted = None\<rparr>) = Inl TypeError"
    by code_simp
  have cleared: "localeDataEmitted (addData ''zoneinfo'' g') = None"
    using eq by (auto simp: emitLocaleData_def addData_def set_add_def split: sum.splits)
  show ?thesis
    using cache_ignores_options[OF eq, of "ex_env [] []" ex_other_options "''dateformat''"]
      mem other cleared
    by (simp add: eq)
qed

section \<open>One entry for a partition and a feature\<close>

lemma buckets_distinct_ensure: "buckets_distinct os \<Longrightarrow> buckets_distinct (ensure_bucket part os)"
  by (auto simp: buckets_distinct_def ensure_bucket_def distinct_obj_set obj_keys_Nil
      intro: list_all_obj_set split: option.splits)

lemma buckets_distinct_put:
  assumes "buckets_distinct os" "put_line part key line os = Some os'"
  shows "buckets_distinct os'"
proof -
  from assms(2) obtain bucket where b: "obj_get os part = Some bucket"
    and os': "os' = obj_set part (obj_set key line bucket) os"
    by (auto simp: put_line_def split: option.splits)
  from obj_get_in_set[OF b] assms(1) have "distinct (obj_keys bucket)"
    by (auto simp: buckets_distinct_def list_all_iff)
  then have "distinct (obj_keys (obj_set key line bucket))"
    by (rule distinct_obj_set)
  with assms(1) show ?thesis
    unfolding os' buckets_distinct_def
    by (auto intro: list_all_obj_set distinct_obj_set)
qed

lemma agg_distinct_generic_part:
  "agg_distinct st \<Longrightarrow> agg_distinct (generic_part e dataRoot filename dir st)"
  by (auto simp: agg_distinct_def generic_part_def Let_def log_error_def
      intro: buckets_distinct_ensure buckets_distinct_put[OF buckets_distinct_ensure]
      split: option.splits)

lemma agg_distinct_region_zone:
  "agg_distinct st \<Longrightarrow> agg_distinct (region_zone e dataRoot zone st)"
  by (auto simp: agg_distinct_def region_zone_def Let_def log_error_def
      intro: buckets_distinct_put split: option.splits)

lemma agg_distinct_generic_zone:
  "agg_distinct st \<Longrightarrow> generic_zone e dataRoot file st = Inr st' \<Longrightarrow> agg_distinct st'"
  by (auto simp: agg_distinct_def generic_zone_def Let_def
      intro: buckets_distinct_put split: option.splits)

lemma agg_distinct_zoneinfo_request:
  assumes "agg_distinct st" "zoneinfo_request e dataRoot locs st = Inr st'"
  shows "agg_distinct st'"
proof -
  from assms(2) obtain data zonetab os list etc where
    put: "put_line ''root'' ''zonetab'' (zonetab_line data) (ensure_bucket ''root'' (outputSet st)) = Some os"
    and run: "forEachM (generic_zone e dataRoot) (generic_zone_files list etc)
               (fold (region_zone e dataRoot) (zoneSet zonetab (regionSet e locs))
                  (st\<lparr>outputSet := os, manifest := set_add ''zoneinfo/zonetab.json'' (manifest st)\<rparr>)) = Inr st'"
    by (auto simp: zoneinfo_request_def Let_def split: option.splits)
  have "agg_distinct (st\<lparr>outputSet := os, manifest := set_add ''zoneinfo/zonetab.json'' (manifest st)\<rparr>)"
    using assms(1) buckets_distinct_put[OF buckets_distinct_ensure put]
    by (simp add: agg_distinct_def)
  then have "agg_distinct (fold (region_zone e dataRoot) (zoneSet zonetab (regionSet e locs))
                  (st\<lparr>outputSet := os, manifest := set_add ''zoneinfo/zonetab.json'' (manifest st)\<rparr>))"
    by (rule fold_invariant[where P = agg_distinct, rotated]) (rule agg_distinct_region_zone)
  then show ?thesis
    using run by (rule forEachM_invariant[where P = agg_distinct, rotated 1]) (rule agg_distinct_generic_zone)
qed

lemma agg_distinct_charset_request:
  "agg_distinct st \<Longrightarrow> charset_request e dataRoot locale filename st = Inr st' \<Longrightarrow> agg_distinct st'"
  by (auto simp: agg_distinct_def charset_request_def load_lang2charset_def Let_def
      split: option.splits sum.splits if_splits)

lemma agg_distinct_norm_request:
  "agg_distinct st \<Longrightarrow> agg_distinct (norm_request form scr st)"
  by (simp add: agg_distinct_def norm_request_def)

lemma agg_distinct_generic_request:
  assumes "agg_distinct st"
  shows "agg_distinct (generic_request e dataRoot loc filename st)"
  unfolding generic_request_def
  by (rule fold_invariant[where P = agg_distinct]) (auto intro: agg_distinct_generic_part assms)

lemma agg_distinct_process_feature:
  assumes "agg_distinct st" "process_feature e dataRoot locs loc filename st = Inr st'"
  shows "agg_distinct st'"
proof (cases "filename = ''charset'' \<or> filename = ''charmaps''")
  case True
  with assms(2) have "charset_request e dataRoot loc filename st = Inr st'"
    by (simp only: process_feature_def if_True)
  with assms(1) show ?thesis
    by (rule agg_distinct_charset_request)
next
  case False
  note not_charset = this
  show ?thesis
  proof (cases "normPattern_exec filename")
    case (Some m)
    with not_charset assms(2) have "st' = norm_request (fst m) (snd m) st"
      by (simp only: process_feature_def if_False option.case split_beta sum.inject)
    with assms(1) show ?thesis
      by (simp add: agg_distinct_norm_request)
  next
    case None
    show ?thesis
    proof (cases "filename = ''zoneinfo''")
      case True
      with None not_charset assms(2) have "zoneinfo_request e dataRoot locs st = Inr st'"
        by (simp only: process_feature_def if_False option.case if_True simp_thms)
      with assms(1) show ?thesis
        by (rule agg_distinct_zoneinfo_request)
    next
      case False
      with None not_charset assms(2) have "st' = generic_request e dataRoot loc filename st"
        by (simp only: process_feature_def if_False option.case sum.inject)
      with assms(1) show ?thesis
        by (simp add: agg_distinct_generic_request)
    qed
  qed
qed

lemma agg_distinct_main_loop:
  assumes "agg_distinct st" "main_loop e dataRoot locs features st = Inr st'"
  shows "agg_distinct st'"
  using assms(2) unfolding main_loop_def
proof (rule forEachM_invariant[where P = agg_distinct, rotated 2])
  fix loc s s'
  assume "agg_distinct s" "forEachM (process_feature e dataRoot locs loc) features s = Inr s'"
  then show "agg_distinct s'"
    by (rule forEachM_invariant[where P = agg_distinct, rotated 1]) (rule agg_distinct_process_feature)
qed (rule assms(1))

lemma agg_distinct_add_charset:
  "agg_distinct (fst sto) \<Longrightarrow> add_charset e dataRoot charset sto = Inr sto' \<Longrightarrow> agg_distinct (fst sto')"
  by (auto simp: agg_distinct_def add_charset_def Let_def
      intro: buckets_distinct_put split: option.splits if_splits)

lemma agg_distinct_add_charmap:
  "agg_distinct st \<Longrightarrow> add_charmap e dataRoot optional charset st = Inr st' \<Longrightarrow> agg_distinct st'"
  by (auto simp: agg_distinct_def add_charmap_def Let_def
      intro: buckets_distinct_put split: option.splits if_splits)

lemma agg_distinct_add_charsetaliases:
  "agg_distinct st \<Longrightarrow> add_charsetaliases e dataRoot st = Inr st' \<Longrightarrow> agg_distinct st'"
  by (auto simp: agg_distinct_def add_charsetaliases_def Let_def
      intro: buckets_distinct_put split: option.splits if_splits)

lemma agg_distinct_charset_phase:
  assumes "agg_distinct st" "charset_phase e dataRoot st = Inr st'"
  shows "agg_distinct st'"
proof (cases "charsets st = []")
  case True
  with assms show ?thesis by (simp add: charset_phase_def)
next
  case False
  with assms(2) obtain st1 st2 optional where
    a: "add_charsetaliases e dataRoot (st\<lparr>outputSet := ensure_bucket ''root'' (outputSet st)\<rparr>) = Inr st1"
    and b: "forEachM (add_charset e dataRoot) (charsets st1) (st1, []) = Inr (st2, optional)"
    and c: "forEachM (\<lambda>entry. forEachM (add_charmap e dataRoot optional) (snd entry)) (charmaps st2) st2 = Inr st'"
    by (auto simp: charset_phase_def split: sum.splits)
  have "agg_distinct (st\<lparr>outputSet := ensure_bucket ''root'' (outputSet st)\<rparr>)"
    using assms(1) by (simp add: agg_distinct_def buckets_distinct_ensure)
  then have "agg_distinct st1"
    using a by (rule agg_distinct_add_charsetaliases)
  then have "agg_distinct (fst (st1, []::string list))"
    by simp
  then have "agg_distinct (fst (st2, optional))"
    using b by (rule forEachM_invariant[where P = "\<lambda>s. agg_distinct (fst s)", rotated 1])
      (rule agg_distinct_add_charset)
  then have st2: "agg_distinct st2"
    by simp
  show ?thesis
    using c
  proof (rule forEachM_invariant[where P = agg_distinct, rotated 2])
    fix entry s s'
    assume "agg_distinct s" "forEachM (add_charmap e dataRoot optional) (snd entry) s = Inr s'"
    then show "agg_distinct s'"
      by (rule forEachM_invariant[where P = agg_distinct, rotated 1]) (rule agg_distinct_add_charmap)
  qed (rule st2)
qed

lemma agg_distinct_addForm:
  "agg_distinct st \<Longrightarrow> agg_distinct (addForm e dataRoot form scr st)"
  by (auto simp: agg_distinct_def addForm_def Let_def log_error_def
      intro: buckets_distinct_put split: option.splits)

lemma agg_distinct_norm_phase:
  assumes "agg_distinct st"
  shows "agg_distinct (norm_phase e dataRoot scripts st)"
  unfolding norm_phase_def
proof (rule fold_invariant[where P = agg_distinct])
  fix entry :: "string \<times> string list" and s
  assume s: "agg_distinct s"
  have "agg_distinct (fold (addForm e dataRoot (fst entry)) scrs s)" for scrs
    by (rule fold_invariant[where P = agg_distinct]) (auto intro: agg_distinct_addForm s)
  then show "agg_distinct (norm_form e dataRoot scripts entry s)"
    using s by (simp add: norm_form_def Let_def agg_distinct_addForm)
qed (rule assms)

lemma agg_distinct_aggregate:
  assumes "aggregate e dataRoot locs features = Inr st"
  shows "agg_distinct st"
proof -
  from assms obtain st1 st2 where
    a: "main_loop e dataRoot locs features init_agg = Inr st1"
    and b: "charset_phase e dataRoot st1 = Inr st2"
    and c: "st = norm_phase e dataRoot (likely_scripts e locs) st2"
    by (auto simp: aggregate_def split: sum.splits)
  have "agg_distinct init_agg"
    by (simp add: agg_distinct_def buckets_distinct_def init_agg_def obj_keys_def)
  then have "agg_distinct st1"
    using a by (rule agg_distinct_main_loop)
  then have "agg_distinct st2"
    using b by (rule agg_distinct_charset_phase)
  then show ?thesis
    unfolding c by (rule agg_distinct_norm_phase)
qed

lemma distinct_keys_filter: "distinct (obj_keys ob) \<Longrightarrow> length (filter (\<lambda>entry. fst entry = k) ob) \<le> 1"
  by (induction ob) (auto simp: obj_keys_def filter_empty_conv image_iff)

lemma distinct_keys_filter_mem:
  "distinct (obj_keys ob) \<Longrightarrow> (k, v) \<in> set ob \<Longrightarrow> filter (\<lambda>entry. fst entry = k) ob = [(k, v)]"
  by (induction ob) (auto simp: obj_keys_def filter_empty_conv image_iff)

text \<open>
  C5. After the aggregation of one pass, whatever the locales and the registered
  features, a bucket holds at most one entry (and so the bundle, the concatenation of
  the bucket's lines, at most one assignment line) for a feature name, and a partition
  has exactly one bucket: a feature reached through several locales that share a
  partition is stored once.
\<close>

theorem one_line_per_feature:
  assumes "aggregate e dataRoot locs features = Inr st"
    and "(part, bucket) \<in> set (outputSet st)"
  shows "length (filter (\<lambda>entry. fst entry = filename) bucket) \<le> 1
         \<and> filter (\<lambda>entry. fst entry = part) (outputSet st) = [(part, bucket)]"
proof -
  from agg_distinct_aggregate[OF assms(1)]
  have d: "distinct (obj_keys (outputSet st))"
    and a: "list_all (\<lambda>entry. distinct (obj_keys (snd entry))) (outputSet st)"
    by (simp_all add: agg_distinct_def buckets_distinct_def)
  from a assms(2) have "distinct (obj_keys bucket)"
    by (auto simp: list_all_iff)
  then have "length (filter (\<lambda>entry. fst entry = filename) bucket) \<le> 1"
    by (rule distinct_keys_filter)
  moreover have "filter (\<lambda>entry. fst entry = part) (outputSet st) = [(part, bucket)]"
    using d assms(2) by (rule distinct_keys_filter_mem)
  ultimately show ?thesis
    by blast
qed

theorem one_line_per_feature_witness:
  "(case aggregate (ex_env ex_files ex_dirs) ''/ilib/locale'' [''en-US'', ''en-GB''] [''dateformat''] of
      Inr st \<Rightarrow>
        (''en'', [(''dateformat'', generic_line ''dateformat'' ''en'' ''{en}'')]) \<in> set (outputSet st)
        \<and> length (filter (\<lambda>entry. fst entry = ''dateformat'')
                     [(''dateformat'', generic_line ''dateformat'' ''en'' ''{en}'')]) \<le> 1
        \<and> filter (\<lambda>entry. fst entry = ''en'') (outputSet st)
            = [(''en'', [(''dateformat'', generic_line ''dateformat'' ''en'' ''{en}'')])]
    | Inl err \<Rightarrow> False)"
proof -
  let ?a = "aggregate (ex_env ex_files ex_dirs) ''/ilib/locale'' [''en-US'', ''en-GB''] [''dateformat'']"
  have ok: "(case ?a of
      Inr st \<Rightarrow> (''en'', [(''dateformat'', generic_line ''dateformat'' ''en'' ''{en}'')]) \<in> set (outputSet st)
    | Inl err \<Rightarrow> False)"
    by code_simp
  then obtain st where eq: "?a = Inr st"
    by (cases ?a) auto
  with ok have mem: "(''en'', [(''dateformat'', generic_line ''dateformat'' ''en'' ''{en}'')]) \<in> set (outputSet st)"
    by simp
  show ?thesis
    using one_line_per_feature[OF eq mem, of "''dateformat''"] mem
    by (simp add: eq)
qed

section \<open>Normalization forms\<close>

subsection \<open>A pass over normalization forms only\<close>

lemma addForm_no_root:
  assumes "obj_get (outputSet st) ''root'' = None"
  shows "addForm e dataRoot form scr st =
           (if addForm_attempted e dataRoot (form, scr)
            then log_error (addForm_caught e dataRoot (form, scr)) st else st)"
  using assms
  by (auto simp: addForm_def addForm_attempted_def addForm_caught_def addForm_path_def Let_def
      put_line_def split: option.splits)

lemma fold_addForm_no_root:
  assumes "obj_get (outputSet st) ''root'' = None"
  shows "fold (addForm e dataRoot form) scrs st =
           st\<lparr>errlog := errlog st @ map (addForm_caught e dataRoot)
                                     (filter (addForm_attempted e dataRoot) (map (Pair form) scrs))\<rparr>"
  using assms
proof (induction scrs arbitrary: st)
  case Nil
  then show ?case by simp
next
  case (Cons scr scrs)
  have "obj_get (outputSet (addForm e dataRoot form scr st)) ''root'' = None"
    using Cons.prems by (simp add: addForm_no_root log_error_def)
  from Cons.IH[OF this] show ?case
    using Cons.prems by (simp add: addForm_no_root log_error_def)
qed

lemma norm_form_no_root:
  assumes "obj_get (outputSet st) ''root'' = None"
  shows "norm_form e dataRoot scripts entry st =
           st\<lparr>errlog := errlog st @ map (addForm_caught e dataRoot)
                                     (filter (addForm_attempted e dataRoot)
                                        (addForm_calls (normalizations st) scripts [entry]))\<rparr>"
  using assms
  by (simp add: norm_form_def Let_def addForm_calls_def fold_addForm_no_root addForm_no_root log_error_def)

lemma fold_norm_form_no_root:
  assumes "obj_get (outputSet st) ''root'' = None"
  shows "fold (norm_form e dataRoot scripts) entries st =
           st\<lparr>errlog := errlog st @ map (addForm_caught e dataRoot)
                                     (filter (addForm_attempted e dataRoot)
                                        (addForm_calls (normalizations st) scripts entries))\<rparr>"
  using assms
proof (induction entries arbitrary: st)
  case Nil
  then show ?case by (simp add: addForm_calls_def)
next
  case (Cons entry entries)
  let ?st1 = "norm_form e dataRoot scripts entry st"
  have st1: "?st1 = st\<lparr>errlog := errlog st @ map (addForm_caught e dataRoot)
                                     (filter (addForm_attempted e dataRoot)
                                        (addForm_calls (normalizations st) scripts [entry]))\<rparr>"
    using Cons.prems by (rule norm_form_no_root)
  have "obj_get (outputSet ?st1) ''root'' = None"
    using Cons.prems by (simp add: st1)
  from Cons.IH[OF this] show ?case
    by (simp add: st1 addForm_calls_def)
qed

lemma features_norm_only:
  assumes "\<forall>f\<in>set features. f \<noteq> ''charset'' \<and> f \<noteq> ''charmaps'' \<and> normPattern_exec f \<noteq> None"
  shows "\<exists>ns. forEachM (process_feature e dataRoot locs loc) features st = Inr (st\<lparr>normalizations := ns\<rparr>)"
  using assms
proof (induction features arbitrary: st)
  case Nil
  have "st = st\<lparr>normalizations := normalizations st\<rparr>" by simp
  then show ?case by (metis forEachM.simps(1))
next
  case (Cons f fs)
  then obtain m where m: "normPattern_exec f = Some m" and f: "f \<noteq> ''charset''" "f \<noteq> ''charmaps''"
    by auto
  have step: "process_feature e dataRoot locs loc f st = Inr (norm_request (fst m) (snd m) st)"
    using f m by (rule process_feature_norm)
  from Cons obtain ns where
    "forEachM (process_feature e dataRoot locs loc) fs (norm_request (fst m) (snd m) st)
       = Inr ((norm_request (fst m) (snd m) st)\<lparr>normalizations := ns\<rparr>)"
    by (meson list.set_intros(2))
  then show ?case
    by (auto simp: step norm_request_def)
qed

lemma main_loop_norm_only:
  assumes "\<forall>f\<in>set features. f \<noteq> ''charset'' \<and> f \<noteq> ''charmaps'' \<and> normPattern_exec f \<noteq> None"
  shows "\<exists>ns. forEachM (\<lambda>loc. forEachM (process_feature e dataRoot locs loc) features) ls st
               = Inr (st\<lparr>normalizations := ns\<rparr>)"
proof (induction ls arbitrary: st)
  case Nil
  have "st = st\<lparr>normalizations := normalizations st\<rparr>" by simp
  then show ?case by (metis forEachM.simps(1))
next
  case (Cons l ls)
  from features_norm_only[OF assms] obtain ns1 where
    a: "forEachM (process_feature e dataRoot locs l) features st = Inr (st\<lparr>normalizations := ns1\<rparr>)"
    by blast
  from Cons obtain ns2 where
    "forEachM (\<lambda>loc. forEachM (process_feature e dataRoot locs loc) features) ls (st\<lparr>normalizations := ns1\<rparr>)
       = Inr (st\<lparr>normalizations := ns1\<rparr>\<lparr>normalizations := ns2\<rparr>)"
    by blast
  then show ?case
    by (auto simp: a)
qed

lemma aggregate_norm_only:
  assumes "\<forall>f\<in>set features. f \<noteq> ''charset'' \<and> f \<noteq> ''charmaps'' \<and> normPattern_exec f \<noteq> None"
  shows "\<exists>st. aggregate e dataRoot locs features = Inr st
             \<and> outputSet st = [] \<and> manifest st = []
             \<and> errlog st = map (addForm_caught e dataRoot)
                              (filter (addForm_attempted e dataRoot)
                                 (addForm_calls (normalizations st) (likely_scripts e locs)
                                    (normalizations st)))"
proof -
  from main_loop_norm_only[OF assms] obtain ns where
    m: "main_loop e dataRoot locs features init_agg = Inr (init_agg\<lparr>normalizations := ns\<rparr>)"
    unfolding main_loop_def by blast
  have c: "charset_phase e dataRoot (init_agg\<lparr>normalizations := ns\<rparr>) = Inr (init_agg\<lparr>normalizations := ns\<rparr>)"
    by (simp add: charset_phase_def init_agg_def)
  have nr: "obj_get (outputSet (init_agg\<lparr>normalizations := ns\<rparr>)) ''root'' = None"
    by (simp add: init_agg_def obj_get_def)
  have a: "aggregate e dataRoot locs features
             = Inr (norm_phase e dataRoot (likely_scripts e locs) (init_agg\<lparr>normalizations := ns\<rparr>))"
    by (simp add: aggregate_def m c)
  have n: "norm_phase e dataRoot (likely_scripts e locs) (init_agg\<lparr>normalizations := ns\<rparr>)
             = init_agg\<lparr>normalizations := ns,
                  errlog := map (addForm_caught e dataRoot)
                              (filter (addForm_attempted e dataRoot)
                                 (addForm_calls ns (likely_scripts e locs) ns))\<rparr>"
    unfolding norm_phase_def fold_norm_form_no_root[OF nr] by (simp add: init_agg_def)
  show ?thesis
    unfolding a n by (simp add: init_agg_def)
qed

text \<open>
  C9. When every registered feature is a normalization form, the aggregation completes
  with no partition at all and an empty manifest: each call of \<open>addForm\<close> that reaches
  its file throws on the missing root bucket (or on the read), the error is caught and
  logged, one log entry per such call. With writable manifests the pass returns just the
  two manifests, both listing nothing.
\<close>

theorem normalization_only:
  assumes "\<forall>f\<in>set features. f \<noteq> ''charset'' \<and> f \<noteq> ''charmaps'' \<and> normPattern_exec f \<noteq> None"
  shows "(\<exists>st. aggregate e dataRoot locs features = Inr st
             \<and> outputSet st = [] \<and> manifest st = []
             \<and> errlog st = map (addForm_caught e dataRoot)
                              (filter (addForm_attempted e dataRoot)
                                 (addForm_calls (normalizations st) (likely_scripts e locs)
                                    (normalizations st))))
         \<and> (calcOutputDir e opts = Inr outputDir \<longrightarrow> calcDataRoot e opts = Inr root \<longrightarrow>
              writable e (path_join e [path_join e [outputDir, ''locales''], ''localmanifest.js'']) \<longrightarrow>
              writable e (path_join e [path_join e [outputDir, ''locales''], ''remotemanifest.js'']) \<longrightarrow>
              run_pass e opts features
                = Inr (obj_set (path_join e [path_join e [outputDir, ''locales''], ''remotemanifest.js''])
                         (manifest_text e [])
                         [(path_join e [path_join e [outputDir, ''locales''], ''localmanifest.js''],
                           manifest_text e [])]))"
proof (intro conjI impI)
  show "\<exists>st. aggregate e dataRoot locs features = Inr st
             \<and> outputSet st = [] \<and> manifest st = []
             \<and> errlog st = map (addForm_caught e dataRoot)
                              (filter (addForm_attempted e dataRoot)
                                 (addForm_calls (normalizations st) (likely_scripts e locs)
                                    (normalizations st)))"
    using assms by (rule aggregate_norm_only)
next
  assume o: "calcOutputDir e opts = Inr outputDir" and r: "calcDataRoot e opts = Inr root"
    and w: "writable e (path_join e [path_join e [outputDir, ''locales''], ''localmanifest.js''])"
      "writable e (path_join e [path_join e [outputDir, ''locales''], ''remotemanifest.js''])"
  from aggregate_norm_only[OF assms, of e root "locales opts"] obtain st where
    a: "aggregate e root (locales opts) features = Inr st" and e: "outputSet st = []" "manifest st = []"
    by blast
  show "run_pass e opts features
          = Inr (obj_set (path_join e [path_join e [outputDir, ''locales''], ''remotemanifest.js''])
                   (manifest_text e [])
                   [(path_join e [path_join e [outputDir, ''locales''], ''localmanifest.js''],
                     manifest_text e [])])"
    using w by (simp add: run_pass_def o r a emit_sources_def Let_def e obj_keys_def)
qed

theorem normalization_only_witness:
  "(case aggregate (ex_env ex_files ex_dirs) ''/ilib/locale'' [''en-US''] [''nfc/Latn'', ''nfd/all'', ''nfkc''] of
      Inr st \<Rightarrow> outputSet st = [] \<and> manifest st = [] \<and> errlog st = [TypeError]
                \<and> normalizations st = [(''nfc'', [''Latn'']), (''nfd'', [''all'']), (''nfkc'', [[]])]
    | Inl err \<Rightarrow> False)
   \<and> run_pass (ex_env ex_files ex_dirs) (ex_options [''en-US'']) [''nfc/Latn'', ''nfd/all'', ''nfkc'']
       = Inr [(''/out/locales/localmanifest.js'', manifest_text (ex_env ex_files ex_dirs) []),
              (''/out/locales/remotemanifest.js'', manifest_text (ex_env ex_files ex_dirs) [])]"
proof -
  let ?e = "ex_env ex_files ex_dirs"
  let ?fs = "[''nfc/Latn'', ''nfd/all'', ''nfkc'']"
  have h: "\<forall>f\<in>set ?fs. f \<noteq> ''charset'' \<and> f \<noteq> ''charmaps'' \<and> normPattern_exec f \<noteq> None"
    by code_simp
  have o: "calcOutputDir ?e (ex_options [''en-US'']) = Inr ''/out''"
    by code_simp
  have r: "calcDataRoot ?e (ex_options [''en-US'']) = Inr ''/ilib/locale''"
    by code_simp
  have w: "writable ?e p" for p
    by (simp add: ex_env_def)
  have j: "path_join ?e [path_join ?e [''/out'', ''locales''], ''remotemanifest.js''] = ''/out/locales/remotemanifest.js''"
    "path_join ?e [path_join ?e [''/out'', ''locales''], ''localmanifest.js''] = ''/out/locales/localmanifest.js''"
    by code_simp+
  have n: "normalizations st = [(''nfc'', [''Latn'']), (''nfd'', [''all'']), (''nfkc'', [[]])]
           \<and> map (addForm_caught ?e ''/ilib/locale'')
                 (filter (addForm_attempted ?e ''/ilib/locale'')
                    (addForm_calls (normalizations st) (likely_scripts ?e [''en-US''])
                       (normalizations st))) = [TypeError]"
    if "aggregate ?e ''/ilib/locale'' [''en-US''] ?fs = Inr st" for st
  proof -
    have "(case aggregate ?e ''/ilib/locale'' [''en-US''] ?fs of
             Inr st \<Rightarrow> normalizations st = [(''nfc'', [''Latn'']), (''nfd'', [''all'']), (''nfkc'', [[]])]
           | Inl err \<Rightarrow> False)"
      by code_simp
    with that have ns: "normalizations st = [(''nfc'', [''Latn'']), (''nfd'', [''all'']), (''nfkc'', [[]])]"
      by simp
    have "map (addForm_caught ?e ''/ilib/locale'')
                 (filter (addForm_attempted ?e ''/ilib/locale'')
                    (addForm_calls [(''nfc'', [''Latn'']), (''nfd'', [''all'']), (''nfkc'', [[]])]
                       (likely_scripts ?e [''en-US''])
                       [(''nfc'', [''Latn'']), (''nfd'', [''all'']), (''nfkc'', [[]])])) = [TypeError]"
      by code_simp
    with ns show ?thesis by simp
  qed
  show ?thesis
    using normalization_only[OF h, of ?e "''/ilib/locale''" "[''en-US'']" "ex_options [''en-US'']" "''/out''" "''/ilib/locale''"]
      o r w n
    by (auto simp: j obj_set.simps)
qed

subsection \<open>The scripts of a form registered without one\<close>

text \<open>
  C2. The feature \<open>nfc\<close> is registered with no script, for the locale \<open>en-US\<close> whose
  likely script is \<open>Latn\<close>; \<open>nfc/Latn.json\<close> exists and the root bucket exists (the
  feature \<open>dateformat\<close> made it). The set of the form is \<open>{""}\<close>, the comparison of
  \<open>normalizations.size\<close> with a number is false, so the loop runs over \<open>{""}\<close> and not over
  the required scripts: no \<open>nfc/Latn\<close> entry is stored and the manifest does not list
  \<open>nfc/Latn.json\<close>.
\<close>

theorem scripts_fallback_unused:
  "(case aggregate (ex_env ex_files ex_dirs) ''/ilib/locale'' [''en-US''] [''dateformat'', ''nfc''] of
      Inr st \<Rightarrow>
        likely_scripts (ex_env ex_files ex_dirs) [''en-US''] = [''Latn'']
        \<and> existsSync (ex_env ex_files ex_dirs) ''/ilib/locale/nfc/Latn.json''
        \<and> normalizations st = [(''nfc'', [[]])]
        \<and> obj_get (outputSet st) ''root'' = Some [(''dateformat'', generic_line ''dateformat'' ''root'' ''{root}'')]
        \<and> ''nfc/Latn.json'' \<notin> set (manifest st)
    | Inl err \<Rightarrow> False)"
  by code_simp

section \<open>The zoneinfo request\<close>

lemma put_line_root: "put_line ''root'' k v [(''root'', b)] = Some [(''root'', obj_set k v b)]"
  by (simp add: put_line_def obj_get_def)

lemma zi_invI:
  assumes "outputSet st = [(''root'', bucket)]" "charsets st = []" "normalizations st = []"
    and "obj_get bucket ''zonetab'' = Some (zonetab_line table)"
    and "\<And>z d. z \<in> Z \<Longrightarrow> existsSync e (zone_path e dataRoot z) \<Longrightarrow>
               readFileSync e (zone_path e dataRoot z) = Some d \<Longrightarrow>
               obj_get bucket z = Some (zone_line z d)"
    and "\<And>f d. f \<in> F \<Longrightarrow> readFileSync e (path_join e [dataRoot, ''zoneinfo'', f]) = Some d \<Longrightarrow>
               obj_get bucket (path_basename e f ''.json'')
                 = Some (zone_line (path_basename e f ''.json'') d)"
    and "\<And>k. k \<in> set (obj_keys bucket) \<longleftrightarrow>
               k = ''zonetab'' \<or> k \<in> Z \<and> zone_stored e dataRoot k
               \<or> (\<exists>f. f \<in> F \<and> k = path_basename e f ''.json'')"
  shows "zi_inv e dataRoot table Z F st"
  unfolding zi_inv_def
  apply (rule exI[of _ bucket])
  apply (intro conjI allI impI)
        apply (rule assms(1))
       apply (rule assms(2))
      apply (rule assms(3))
     apply (rule assms(4))
    apply (erule (2) assms(5))
   apply (erule (1) assms(6))
  apply (rule assms(7))
  done

lemma region_zone_fields:
  "charsets (region_zone e dataRoot zone st) = charsets st"
  "normalizations (region_zone e dataRoot zone st) = normalizations st"
  by (auto simp: region_zone_def Let_def log_error_def split: option.splits)

lemma zi_inv_region_zone:
  assumes "zi_inv e dataRoot table Z {} st" "z \<noteq> ''zonetab''"
  shows "zi_inv e dataRoot table (insert z Z) {} (region_zone e dataRoot z st)"
proof -
  let ?st = "region_zone e dataRoot z st"
  from assms(1) obtain bucket where
    b: "outputSet st = [(''root'', bucket)]" "charsets st = []" "normalizations st = []"
      "obj_get bucket ''zonetab'' = Some (zonetab_line table)"
    and zs0: "\<forall>z d. z \<in> Z \<longrightarrow> existsSync e (zone_path e dataRoot z) \<longrightarrow>
               readFileSync e (zone_path e dataRoot z) = Some d \<longrightarrow>
               obj_get bucket z = Some (zone_line z d)"
    and ks0: "\<forall>k. k \<in> set (obj_keys bucket) \<longleftrightarrow>
               k = ''zonetab'' \<or> k \<in> Z \<and> zone_stored e dataRoot k
               \<or> (\<exists>f. f \<in> {} \<and> k = path_basename e f ''.json'')"
    unfolding zi_inv_def by (elim exE conjE)
  note zs = zs0[rule_format] and ks = ks0[rule_format]
  have fr: "charsets ?st = []" "normalizations ?st = []"
    using b(2,3) by (simp_all add: region_zone_fields)
  show ?thesis
  proof (cases "zone_stored e dataRoot z")
    case False
    then have os: "outputSet ?st = [(''root'', bucket)]"
      using b(1) by (auto simp: zone_stored_def region_zone_def zone_path_def Let_def log_error_def)
    show ?thesis
    proof (rule zi_invI[OF os fr b(4)])
      fix z' d
      assume a: "z' \<in> insert z Z" "existsSync e (zone_path e dataRoot z')"
        "readFileSync e (zone_path e dataRoot z') = Some d"
      with False have "z' \<noteq> z" by (auto simp: zone_stored_def)
      with a(1) have "z' \<in> Z" by simp
      then show "obj_get bucket z' = Some (zone_line z' d)"
        using a(2,3) by (rule zs)
    next
      fix f :: string and d
      assume "f \<in> {}"
      then show "obj_get bucket (path_basename e f ''.json'') = Some (zone_line (path_basename e f ''.json'') d)"
        by simp
    next
      fix k
      show "k \<in> set (obj_keys bucket) \<longleftrightarrow>
               k = ''zonetab'' \<or> k \<in> insert z Z \<and> zone_stored e dataRoot k
               \<or> (\<exists>f. f \<in> {} \<and> k = path_basename e f ''.json'')"
        using ks[of k] False by auto
    qed
  next
    case True
    then obtain d where ex: "existsSync e (zone_path e dataRoot z)"
      and rd: "readFileSync e (zone_path e dataRoot z) = Some d"
      by (auto simp: zone_stored_def)
    let ?b = "obj_set z (zone_line z d) bucket"
    have os: "outputSet ?st = [(''root'', ?b)]"
      using ex rd b(1) by (simp add: region_zone_def zone_path_def Let_def put_line_root)
    have tab: "obj_get ?b ''zonetab'' = Some (zonetab_line table)"
      using b(4) assms(2) by (simp add: obj_get_obj_set)
    show ?thesis
    proof (rule zi_invI[OF os fr tab])
      fix z' d'
      assume a: "z' \<in> insert z Z" "existsSync e (zone_path e dataRoot z')"
        "readFileSync e (zone_path e dataRoot z') = Some d'"
      show "obj_get ?b z' = Some (zone_line z' d')"
      proof (cases "z' = z")
        case True
        with a(3) rd show ?thesis by (simp add: obj_get_obj_set)
      next
        case False
        with a(1) have "z' \<in> Z" by simp
        then have "obj_get bucket z' = Some (zone_line z' d')"
          using a(2,3) by (rule zs)
        with False show ?thesis by (simp add: obj_get_obj_set)
      qed
    next
      fix f :: string and d'
      assume "f \<in> {}"
      then show "obj_get ?b (path_basename e f ''.json'') = Some (zone_line (path_basename e f ''.json'') d')"
        by simp
    next
      fix k
      show "k \<in> set (obj_keys ?b) \<longleftrightarrow>
               k = ''zonetab'' \<or> k \<in> insert z Z \<and> zone_stored e dataRoot k
               \<or> (\<exists>f. f \<in> {} \<and> k = path_basename e f ''.json'')"
        using ks[of k] True by (auto simp: set_obj_keys_obj_set)
    qed
  qed
qed

lemma zi_inv_fold_region_zone:
  assumes "zi_inv e dataRoot table Z {} st" "''zonetab'' \<notin> set zs"
  shows "zi_inv e dataRoot table (Z \<union> set zs) {} (fold (region_zone e dataRoot) zs st)"
  using assms
proof (induction zs arbitrary: Z st)
  case Nil
  then show ?case by simp
next
  case (Cons z zs)
  from Cons.prems(2) have z: "z \<noteq> ''zonetab''" and rest: "''zonetab'' \<notin> set zs"
    by auto
  have eq: "insert z Z \<union> set zs = Z \<union> set (z # zs)"
    by auto
  from Cons.IH[OF zi_inv_region_zone[OF Cons.prems(1) z] rest] show ?case
    unfolding eq by simp
qed

lemma zi_inv_generic_zone:
  assumes "zi_inv e dataRoot table Z F st"
    and rd: "readFileSync e (path_join e [dataRoot, ''zoneinfo'', f]) = Some d"
    and nt: "path_basename e f ''.json'' \<noteq> ''zonetab''"
    and inj: "\<And>g. g \<in> F \<Longrightarrow> path_basename e g ''.json'' = path_basename e f ''.json'' \<Longrightarrow> g = f"
    and own: "path_basename e f ''.json'' \<in> Z \<Longrightarrow> f = path_basename e f ''.json'' @ ''.json''"
  shows "\<exists>st'. generic_zone e dataRoot f st = Inr st' \<and> zi_inv e dataRoot table Z (insert f F) st'"
proof -
  from assms(1) obtain bucket where
    b: "outputSet st = [(''root'', bucket)]" "charsets st = []" "normalizations st = []"
      "obj_get bucket ''zonetab'' = Some (zonetab_line table)"
    and zs0: "\<forall>z d. z \<in> Z \<longrightarrow> existsSync e (zone_path e dataRoot z) \<longrightarrow>
               readFileSync e (zone_path e dataRoot z) = Some d \<longrightarrow>
               obj_get bucket z = Some (zone_line z d)"
    and fs0: "\<forall>f d. f \<in> F \<longrightarrow> readFileSync e (path_join e [dataRoot, ''zoneinfo'', f]) = Some d \<longrightarrow>
               obj_get bucket (path_basename e f ''.json'')
                 = Some (zone_line (path_basename e f ''.json'') d)"
    and ks0: "\<forall>k. k \<in> set (obj_keys bucket) \<longleftrightarrow>
               k = ''zonetab'' \<or> k \<in> Z \<and> zone_stored e dataRoot k
               \<or> (\<exists>f. f \<in> F \<and> k = path_basename e f ''.json'')"
    unfolding zi_inv_def by (elim exE conjE)
  note zs = zs0[rule_format] and fs = fs0[rule_format] and ks = ks0[rule_format]
  let ?k = "path_basename e f ''.json''"
  let ?b = "obj_set ?k (zone_line ?k d) bucket"
  let ?st = "st\<lparr>outputSet := [(''root'', ?b)],
                 manifest := set_add (path_join e [''zoneinfo'', f]) (manifest st)\<rparr>"
  have run: "generic_zone e dataRoot f st = Inr ?st"
    using rd b(1) by (simp add: generic_zone_def Let_def put_line_root)
  have os: "outputSet ?st = [(''root'', ?b)]" and fr: "charsets ?st = []" "normalizations ?st = []"
    using b(2,3) by simp_all
  have tab: "obj_get ?b ''zonetab'' = Some (zonetab_line table)"
    using b(4) nt by (simp add: obj_get_obj_set)
  have "zi_inv e dataRoot table Z (insert f F) ?st"
  proof (rule zi_invI[OF os fr tab])
    fix z d'
    assume z: "z \<in> Z" and ex: "existsSync e (zone_path e dataRoot z)"
      and rz: "readFileSync e (zone_path e dataRoot z) = Some d'"
    show "obj_get ?b z = Some (zone_line z d')"
    proof (cases "z = ?k")
      case True
      with z own have "f = z @ ''.json''" by simp
      with rd rz have "d' = d" by (simp add: zone_path_def)
      with True show ?thesis by (simp add: obj_get_obj_set)
    next
      case False
      with zs[OF z ex rz] show ?thesis by (simp add: obj_get_obj_set)
    qed
  next
    fix g d'
    assume g: "g \<in> insert f F" and rg: "readFileSync e (path_join e [dataRoot, ''zoneinfo'', g]) = Some d'"
    show "obj_get ?b (path_basename e g ''.json'') = Some (zone_line (path_basename e g ''.json'') d')"
    proof (cases "path_basename e g ''.json'' = ?k")
      case True
      with g inj have "g = f" by auto
      with rd rg have "d' = d" by simp
      with True show ?thesis by (simp add: obj_get_obj_set)
    next
      case False
      with g have "g \<in> F" by auto
      from fs[OF this rg] False show ?thesis by (simp add: obj_get_obj_set)
    qed
  next
    fix k
    show "k \<in> set (obj_keys ?b) \<longleftrightarrow>
               k = ''zonetab'' \<or> k \<in> Z \<and> zone_stored e dataRoot k
               \<or> (\<exists>g. g \<in> insert f F \<and> k = path_basename e g ''.json'')"
      using ks[of k] by (auto simp: set_obj_keys_obj_set)
  qed
  with run show ?thesis by simp
qed

lemma zi_inv_generic_zones:
  assumes "zi_inv e dataRoot table Z F st"
    and "\<forall>f\<in>set fs. readFileSync e (path_join e [dataRoot, ''zoneinfo'', f]) \<noteq> None"
    and "\<forall>f\<in>set fs. path_basename e f ''.json'' \<noteq> ''zonetab''"
    and "\<forall>f\<in>set fs. \<forall>g\<in>F \<union> set fs.
           path_basename e g ''.json'' = path_basename e f ''.json'' \<longrightarrow> g = f"
    and "\<forall>f\<in>set fs. path_basename e f ''.json'' \<in> Z \<longrightarrow> f = path_basename e f ''.json'' @ ''.json''"
  shows "\<exists>st'. forEachM (generic_zone e dataRoot) fs st = Inr st'
           \<and> zi_inv e dataRoot table Z (F \<union> set fs) st'"
  using assms
proof (induction fs arbitrary: F st)
  case Nil
  then show ?case by simp
next
  case (Cons f fs)
  from Cons.prems(2) obtain d where rd: "readFileSync e (path_join e [dataRoot, ''zoneinfo'', f]) = Some d"
    by auto
  have nt: "path_basename e f ''.json'' \<noteq> ''zonetab''"
    using Cons.prems(3) by simp
  have inj: "g = f" if "g \<in> F" "path_basename e g ''.json'' = path_basename e f ''.json''" for g
    using Cons.prems(4) that by simp
  have own: "f = path_basename e f ''.json'' @ ''.json''" if "path_basename e f ''.json'' \<in> Z"
    using Cons.prems(5) that by simp
  have "\<exists>st'. generic_zone e dataRoot f st = Inr st' \<and> zi_inv e dataRoot table Z (insert f F) st'"
  proof (rule zi_inv_generic_zone[OF Cons.prems(1) rd nt])
    fix g
    assume "g \<in> F" "path_basename e g ''.json'' = path_basename e f ''.json''"
    then show "g = f" by (rule inj)
  next
    assume "path_basename e f ''.json'' \<in> Z"
    then show "f = path_basename e f ''.json'' @ ''.json''" by (rule own)
  qed
  then obtain st1 where
    s: "generic_zone e dataRoot f st = Inr st1"
    and z: "zi_inv e dataRoot table Z (insert f F) st1"
    by (elim exE conjE)
  have r2: "\<forall>f\<in>set fs. readFileSync e (path_join e [dataRoot, ''zoneinfo'', f]) \<noteq> None"
    using Cons.prems(2) by simp
  have r3: "\<forall>f\<in>set fs. path_basename e f ''.json'' \<noteq> ''zonetab''"
    using Cons.prems(3) by simp
  have r4: "\<forall>h\<in>set fs. \<forall>g\<in>insert f F \<union> set fs.
           path_basename e g ''.json'' = path_basename e h ''.json'' \<longrightarrow> g = h"
    using Cons.prems(4) by simp
  have r5: "\<forall>f\<in>set fs. path_basename e f ''.json'' \<in> Z \<longrightarrow> f = path_basename e f ''.json'' @ ''.json''"
    using Cons.prems(5) by simp
  have eq: "insert f F \<union> set fs = F \<union> set (f # fs)"
    by auto
  from Cons.IH[OF z r2 r3 r4 r5] show ?case
    unfolding eq by (simp add: s)
qed

lemma generic_zone_files_iff:
  "f \<in> set (generic_zone_files list etc) \<longleftrightarrow> generic_zone_file list etc f"
  by (auto simp: generic_zone_files_def generic_zone_file_def)

lemma put_line_other_partition:
  assumes "put_line ''root'' k v os = Some os'" "part \<noteq> ''root''"
  shows "obj_get os' part = obj_get os part"
  using assms by (auto simp: put_line_def obj_get_obj_set split: option.splits)

lemma ensure_bucket_other_partition:
  "part \<noteq> ''root'' \<Longrightarrow> obj_get (ensure_bucket ''root'' os) part = obj_get os part"
  by (simp add: ensure_bucket_def obj_get_obj_set split: option.splits)

lemma region_zone_other_partition:
  "part \<noteq> ''root'' \<Longrightarrow>
     obj_get (outputSet (region_zone e dataRoot zone st)) part = obj_get (outputSet st) part"
  by (auto simp: region_zone_def Let_def log_error_def split: option.splits
      dest: put_line_other_partition)

lemma generic_zone_other_partition:
  "generic_zone e dataRoot file st = Inr st' \<Longrightarrow> part \<noteq> ''root'' \<Longrightarrow>
     obj_get (outputSet st') part = obj_get (outputSet st) part"
  by (auto simp: generic_zone_def Let_def split: option.splits dest: put_line_other_partition)

lemma zoneinfo_request_other_partition:
  assumes "zoneinfo_request e dataRoot locs st = Inr st'" "part \<noteq> ''root''"
  shows "obj_get (outputSet st') part = obj_get (outputSet st) part"
proof -
  from assms(1) obtain data zonetab os list etc where
    put: "put_line ''root'' ''zonetab'' (zonetab_line data) (ensure_bucket ''root'' (outputSet st)) = Some os"
    and run: "forEachM (generic_zone e dataRoot) (generic_zone_files list etc)
               (fold (region_zone e dataRoot) (zoneSet zonetab (regionSet e locs))
                  (st\<lparr>outputSet := os, manifest := set_add ''zoneinfo/zonetab.json'' (manifest st)\<rparr>)) = Inr st'"
    by (auto simp: zoneinfo_request_def Let_def split: option.splits)
  let ?st1 = "st\<lparr>outputSet := os, manifest := set_add ''zoneinfo/zonetab.json'' (manifest st)\<rparr>"
  let ?st2 = "fold (region_zone e dataRoot) (zoneSet zonetab (regionSet e locs)) ?st1"
  have "obj_get (outputSet st') part = obj_get (outputSet ?st2) part"
    using _ run
    by (rule forEachM_preserves[where g = "\<lambda>s. obj_get (outputSet s) part"])
       (rule generic_zone_other_partition[OF _ assms(2)])
  also have "\<dots> = obj_get (outputSet ?st1) part"
    by (rule fold_preserves[where g = "\<lambda>s. obj_get (outputSet s) part"])
       (rule region_zone_other_partition[OF assms(2)])
  also have "\<dots> = obj_get (outputSet st) part"
    using put_line_other_partition[OF put assms(2)] assms(2)
    by (simp add: ensure_bucket_other_partition)
  finally show ?thesis .
qed

lemma zoneSet_single:
  assumes "region (new_Locale e loc) = r" "r \<noteq> []" "zonetab r = Some zones"
  shows "set (zoneSet zonetab (regionSet e [loc])) = set zones"
  using assms by (simp add: zoneSet_def regionSet_def set_add_def region_key_def set_fold_set_add)

lemma zone_line_text:
  \<open>zone_line z d = ''ilib.data.zoneinfo["'' @ zone_identifier z @ ''"] = '' @ d @ '';'' @ [newline]\<close>
  by (simp add: zone_line_def zone_name_def zone_identifier_def replace_char_def dquote_def
      cong: if_cong)

lemma zi_inv_zoneinfo_request:
  assumes tab: "readFileSync e (path_join e [dataRoot, ''zoneinfo/zonetab.json'']) = Some table"
      "parse_zonetab e table = Some zonetab"
    and dirs: "readdirSync e (path_join e [dataRoot, ''zoneinfo'']) = Some list"
      "readdirSync e (path_join e [path_join e [dataRoot, ''zoneinfo''], ''Etc'']) = Some etc"
    and zs: "set (zoneSet zonetab (regionSet e locs)) = Z" "''zonetab'' \<notin> Z"
    and files: "\<forall>f\<in>set (generic_zone_files list etc).
                  readFileSync e (path_join e [dataRoot, ''zoneinfo'', f]) \<noteq> None"
    and nt: "\<forall>f\<in>set (generic_zone_files list etc). path_basename e f ''.json'' \<noteq> ''zonetab''"
    and inj: "\<forall>f\<in>set (generic_zone_files list etc). \<forall>g\<in>{} \<union> set (generic_zone_files list etc).
           path_basename e g ''.json'' = path_basename e f ''.json'' \<longrightarrow> g = f"
    and own: "\<forall>f\<in>set (generic_zone_files list etc).
           path_basename e f ''.json'' \<in> Z \<longrightarrow> f = path_basename e f ''.json'' @ ''.json''"
  shows "\<exists>st'. zoneinfo_request e dataRoot locs init_agg = Inr st'
           \<and> zi_inv e dataRoot table Z (set (generic_zone_files list etc)) st'"
proof -
  let ?b = "[(''zonetab'', zonetab_line table)]"
  let ?st1 = "init_agg\<lparr>outputSet := [(''root'', ?b)],
                  manifest := set_add ''zoneinfo/zonetab.json'' (manifest init_agg)\<rparr>"
  have put: "put_line ''root'' ''zonetab'' (zonetab_line table) (ensure_bucket ''root'' (outputSet init_agg))
               = Some [(''root'', ?b)]"
    by (simp add: init_agg_def ensure_bucket_def obj_get_def put_line_def)
  have z1: "zi_inv e dataRoot table {} {} ?st1"
  proof (rule zi_invI[where bucket = ?b])
    show "outputSet ?st1 = [(''root'', ?b)]" by simp
    show "charsets ?st1 = []" "normalizations ?st1 = []" by (simp_all add: init_agg_def)
    show "obj_get ?b ''zonetab'' = Some (zonetab_line table)" by (simp add: obj_get_def)
    show "k \<in> set (obj_keys ?b) \<longleftrightarrow>
               k = ''zonetab'' \<or> k \<in> {} \<and> zone_stored e dataRoot k
               \<or> (\<exists>f. f \<in> {} \<and> k = path_basename e f ''.json'')" for k
      by (simp add: obj_keys_def)
  qed simp_all
  have z2: "zi_inv e dataRoot table Z {}
              (fold (region_zone e dataRoot) (zoneSet zonetab (regionSet e locs)) ?st1)"
    using zi_inv_fold_region_zone[OF z1, of "zoneSet zonetab (regionSet e locs)"] zs
    by simp
  from zi_inv_generic_zones[OF z2 files nt inj own]
  show ?thesis
    by (simp add: zoneinfo_request_def Let_def tab put dirs)
qed


text \<open>
  C7, as stated, fails: an entry is stored under the base name of its file, so a file
  stored later under the same key replaces it. Over a zoneinfo directory that holds
  \<open>UTC.json\<close> and \<open>Etc/UTC.json\<close>, the bucket has one entry \<open>UTC\<close>, with the contents of
  \<open>Etc/UTC.json\<close>: the generic zone file \<open>UTC.json\<close> has none. And with a file
  \<open>Etc/zonetab.json\<close> the key \<open>zonetab\<close> holds a zone of that name, not the zonetab
  table.
\<close>

theorem zone_key_clash_counterexample:
  \<open>readFileSync (ex_env ex_clash_files ex_clash_dirs) ''/ilib/locale/zoneinfo/zonetab.json''
      = Some ex_zonetab_text
   \<and> generic_zone_file [''America'', ''Etc'', ''UTC.json'', ''zonetab.json''] [''UTC.json'', ''zonetab.json'']
        ''UTC.json''
   \<and> readFileSync (ex_env ex_clash_files ex_clash_dirs) ''/ilib/locale/zoneinfo/UTC.json''
        = Some ''{utc}''
   \<and> (case aggregate (ex_env ex_clash_files ex_clash_dirs) ''/ilib/locale'' [''en-US''] [''zoneinfo''] of
         Inr st \<Rightarrow>
           outputSet st =
             [(''root'',
               [(''zonetab'', ''ilib.data.zoneinfo["zonetab"] = {etc-zonetab};'' @ [newline]),
                (''America/New_York'', ''ilib.data.zoneinfo["America/New_York"] = {ny};'' @ [newline]),
                (''UTC'', ''ilib.data.zoneinfo["UTC"] = {etc-utc};'' @ [newline])])]
       | Inl err \<Rightarrow> False)\<close>
  by code_simp


text \<open>
  C7, amended. With \<open>zoneinfo\<close> the registered feature and one locale whose region is
  \<open>r\<close> (\<open>US\<close> for \<open>en-US\<close>), over a data root whose zonetab, directory listings and
  generic zone files can be read, and where no two entries claim the same key (no zone
  of the region and no generic zone file is named \<open>zonetab\<close>, no two generic zone files
  have the same base name, and a generic zone file with the name of a zone of the region
  is the file of that zone): the aggregation completes; \<open>root\<close> is the only partition;
  its bucket holds the zonetab table under \<open>zonetab\<close>, assigned to
  \<open>ilib.data.zoneinfo.zonetab\<close>; for every zone that the zonetab lists under \<open>r\<close> and
  whose file exists and can be read, the contents of that file under the name of the
  zone; for every generic zone file, in the zoneinfo directory or in its \<open>Etc\<close>
  subdirectory, the contents of that file under its base name; and no other key. And in
  any state of a pass, for any locales, a zoneinfo request that returns has changed no
  bucket other than that of \<open>root\<close>.
\<close>

theorem zoneinfo_complete:
  assumes reg: "region (new_Locale e loc) = r" "r \<noteq> []"
    and tab: "readFileSync e (path_join e [dataRoot, ''zoneinfo/zonetab.json'']) = Some table"
      "parse_zonetab e table = Some zonetab" "zonetab r = Some zones"
    and dirs: "readdirSync e (path_join e [dataRoot, ''zoneinfo'']) = Some list"
      "readdirSync e (path_join e [path_join e [dataRoot, ''zoneinfo''], ''Etc'']) = Some etc"
    and files: "\<forall>f. generic_zone_file list etc f \<longrightarrow>
                  readFileSync e (path_join e [dataRoot, ''zoneinfo'', f]) \<noteq> None"
    and tabkey: "''zonetab'' \<notin> set zones"
      "\<forall>f. generic_zone_file list etc f \<longrightarrow> path_basename e f ''.json'' \<noteq> ''zonetab''"
    and inj: "\<forall>f g. generic_zone_file list etc f \<longrightarrow> generic_zone_file list etc g \<longrightarrow>
                path_basename e f ''.json'' = path_basename e g ''.json'' \<longrightarrow> f = g"
    and own: "\<forall>f. generic_zone_file list etc f \<longrightarrow> path_basename e f ''.json'' \<in> set zones \<longrightarrow>
                f = path_basename e f ''.json'' @ ''.json''"
  shows \<open>(\<exists>st bucket.
            aggregate e dataRoot [loc] [''zoneinfo''] = Inr st
            \<and> outputSet st = [(''root'', bucket)]
            \<and> obj_get bucket ''zonetab''
                = Some (''ilib.data.zoneinfo.zonetab = '' @ table @ '';'' @ [newline])
            \<and> (\<forall>z d. z \<in> set zones \<longrightarrow>
                  existsSync e (path_join e [dataRoot, ''zoneinfo'', z @ ''.json'']) \<longrightarrow>
                  readFileSync e (path_join e [dataRoot, ''zoneinfo'', z @ ''.json'']) = Some d \<longrightarrow>
                  obj_get bucket z
                    = Some (''ilib.data.zoneinfo["'' @ zone_identifier z @ ''"] = '' @ d @ '';''
                            @ [newline]))
            \<and> (\<forall>f d. generic_zone_file list etc f \<longrightarrow>
                  readFileSync e (path_join e [dataRoot, ''zoneinfo'', f]) = Some d \<longrightarrow>
                  obj_get bucket (path_basename e f ''.json'')
                    = Some (''ilib.data.zoneinfo["'' @ zone_identifier (path_basename e f ''.json'')
                            @ ''"] = '' @ d @ '';'' @ [newline]))
            \<and> (\<forall>k. k \<in> set (obj_keys bucket) \<longleftrightarrow>
                  k = ''zonetab''
                  \<or> k \<in> set zones
                    \<and> existsSync e (path_join e [dataRoot, ''zoneinfo'', k @ ''.json''])
                    \<and> readFileSync e (path_join e [dataRoot, ''zoneinfo'', k @ ''.json'']) \<noteq> None
                  \<or> (\<exists>f. generic_zone_file list etc f \<and> k = path_basename e f ''.json'')))
         \<and> (\<forall>locs st0 st' part.
               zoneinfo_request e dataRoot locs st0 = Inr st' \<longrightarrow> part \<noteq> ''root'' \<longrightarrow>
               obj_get (outputSet st') part = obj_get (outputSet st0) part)\<close>
proof -
  let ?G = "set (generic_zone_files list etc)"
  have zs: "set (zoneSet zonetab (regionSet e [loc])) = set zones"
    using reg tab(3) by (rule zoneSet_single)
  have f1: "\<forall>f\<in>?G. readFileSync e (path_join e [dataRoot, ''zoneinfo'', f]) \<noteq> None"
    using files by (simp add: generic_zone_files_iff)
  have f2: "\<forall>f\<in>?G. path_basename e f ''.json'' \<noteq> ''zonetab''"
    using tabkey(2) by (simp add: generic_zone_files_iff)
  have f3: "\<forall>f\<in>?G. \<forall>g\<in>{} \<union> ?G.
           path_basename e g ''.json'' = path_basename e f ''.json'' \<longrightarrow> g = f"
    using inj by (simp add: generic_zone_files_iff)
  have f4: "\<forall>f\<in>?G. path_basename e f ''.json'' \<in> set zones \<longrightarrow> f = path_basename e f ''.json'' @ ''.json''"
    using own by (simp add: generic_zone_files_iff)
  from zi_inv_zoneinfo_request[OF tab(1,2) dirs zs tabkey(1) f1 f2 f3 f4] obtain st where
    req: "zoneinfo_request e dataRoot [loc] init_agg = Inr st"
    and z: "zi_inv e dataRoot table (set zones) ?G st"
    by (elim exE conjE)
  from z obtain bucket where
    b: "outputSet st = [(''root'', bucket)]" "charsets st = []" "normalizations st = []"
      "obj_get bucket ''zonetab'' = Some (zonetab_line table)"
    and zs0: "\<forall>z d. z \<in> set zones \<longrightarrow> existsSync e (zone_path e dataRoot z) \<longrightarrow>
               readFileSync e (zone_path e dataRoot z) = Some d \<longrightarrow>
               obj_get bucket z = Some (zone_line z d)"
    and fs0: "\<forall>f d. f \<in> ?G \<longrightarrow> readFileSync e (path_join e [dataRoot, ''zoneinfo'', f]) = Some d \<longrightarrow>
               obj_get bucket (path_basename e f ''.json'')
                 = Some (zone_line (path_basename e f ''.json'') d)"
    and ks0: "\<forall>k. k \<in> set (obj_keys bucket) \<longleftrightarrow>
               k = ''zonetab'' \<or> k \<in> set zones \<and> zone_stored e dataRoot k
               \<or> (\<exists>f. f \<in> ?G \<and> k = path_basename e f ''.json'')"
    unfolding zi_inv_def by (elim exE conjE)
  have pf: "process_feature e dataRoot [loc] loc ''zoneinfo'' init_agg = Inr st"
    by (simp only: process_feature_zoneinfo req)
  have ml: "main_loop e dataRoot [loc] [''zoneinfo''] init_agg = Inr st"
    by (simp add: main_loop_def pf)
  have agg: "aggregate e dataRoot [loc] [''zoneinfo''] = Inr st"
    by (simp add: aggregate_def ml charset_phase_def b(2) norm_phase_def b(3))
  have c1: \<open>obj_get bucket ''zonetab''
                = Some (''ilib.data.zoneinfo.zonetab = '' @ table @ '';'' @ [newline])\<close>
    using b(4) by (simp add: zonetab_line_def)
  have c2: \<open>\<forall>z d. z \<in> set zones \<longrightarrow>
                  existsSync e (path_join e [dataRoot, ''zoneinfo'', z @ ''.json'']) \<longrightarrow>
                  readFileSync e (path_join e [dataRoot, ''zoneinfo'', z @ ''.json'']) = Some d \<longrightarrow>
                  obj_get bucket z
                    = Some (''ilib.data.zoneinfo["'' @ zone_identifier z @ ''"] = '' @ d @ '';''
                            @ [newline])\<close>
    using zs0 unfolding zone_line_text zone_path_def .
  have c3: \<open>\<forall>f d. generic_zone_file list etc f \<longrightarrow>
                  readFileSync e (path_join e [dataRoot, ''zoneinfo'', f]) = Some d \<longrightarrow>
                  obj_get bucket (path_basename e f ''.json'')
                    = Some (''ilib.data.zoneinfo["'' @ zone_identifier (path_basename e f ''.json'')
                            @ ''"] = '' @ d @ '';'' @ [newline])\<close>
    using fs0 unfolding zone_line_text generic_zone_files_iff .
  have c4: "\<forall>k. k \<in> set (obj_keys bucket) \<longleftrightarrow>
                  k = ''zonetab''
                  \<or> k \<in> set zones
                    \<and> existsSync e (path_join e [dataRoot, ''zoneinfo'', k @ ''.json''])
                    \<and> readFileSync e (path_join e [dataRoot, ''zoneinfo'', k @ ''.json'']) \<noteq> None
                  \<or> (\<exists>f. generic_zone_file list etc f \<and> k = path_basename e f ''.json'')"
    using ks0 unfolding zone_stored_def zone_path_def generic_zone_files_iff .
  have frame: "\<forall>locs st0 st' part.
               zoneinfo_request e dataRoot locs st0 = Inr st' \<longrightarrow> part \<noteq> ''root'' \<longrightarrow>
               obj_get (outputSet st') part = obj_get (outputSet st0) part"
    by (intro allI impI) (rule zoneinfo_request_other_partition)
  show ?thesis
    apply (rule conjI)
     apply (rule exI[of _ st])
     apply (rule exI[of _ bucket])
     apply (intro conjI)
          apply (rule agg)
         apply (rule b(1))
        apply (rule c1)
       apply (rule c2)
      apply (rule c3)
     apply (rule c4)
    apply (rule frame)
    done
qed

theorem zoneinfo_complete_witness:
  \<open>(case aggregate (ex_env ex_files ex_dirs) ''/ilib/locale'' [''en-US''] [''zoneinfo''] of
      Inr st \<Rightarrow>
        obj_keys (outputSet st) = [''root'']
        \<and> (case obj_get (outputSet st) ''root'' of
             Some bucket \<Rightarrow>
               obj_get bucket ''zonetab''
                 = Some (''ilib.data.zoneinfo.zonetab = '' @ ex_zonetab_text @ '';'' @ [newline])
               \<and> obj_get bucket ''America/New_York''
                   = Some (''ilib.data.zoneinfo["America/New_York"] = {ny};'' @ [newline])
               \<and> obj_get bucket ''UTC'' = Some (''ilib.data.zoneinfo["UTC"] = {utc};'' @ [newline])
               \<and> obj_get bucket ''GMT+1'' = Some (''ilib.data.zoneinfo["GMTp1"] = {gmt1};'' @ [newline])
               \<and> set (obj_keys bucket) = {''zonetab'', ''America/New_York'', ''UTC'', ''GMT+1''}
           | None \<Rightarrow> False)
    | Inl err \<Rightarrow> False)\<close>
proof -
  let ?e = "ex_env ex_files ex_dirs"
  let ?tab = "map_of [(''US'', [''America/New_York'']), (''GB'', [''Europe/London''])]"
  let ?L = "[''America'', ''Etc'', ''UTC.json'', ''zonetab.json'']"
  let ?E = "[''GMT+1.json'']"
  have reg: "region (new_Locale ?e ''en-US'') = ''US''" "''US'' \<noteq> []"
    by code_simp+
  have tab1: "readFileSync ?e (path_join ?e [''/ilib/locale'', ''zoneinfo/zonetab.json'']) = Some ex_zonetab_text"
    by code_simp
  have tab2: "parse_zonetab ?e ex_zonetab_text = Some ?tab"
    by (simp add: ex_env_def)
  have tab3: "?tab ''US'' = Some [''America/New_York'']"
    by simp
  have dirs: "readdirSync ?e (path_join ?e [''/ilib/locale'', ''zoneinfo'']) = Some ?L"
    "readdirSync ?e (path_join ?e [path_join ?e [''/ilib/locale'', ''zoneinfo''], ''Etc'']) = Some ?E"
    by code_simp+
  have gf: "generic_zone_files ?L ?E = [''UTC.json'', ''Etc/GMT+1.json'']"
    by code_simp
  have gz: "generic_zone_file ?L ?E f \<longleftrightarrow> f = ''UTC.json'' \<or> f = ''Etc/GMT+1.json''" for f
    unfolding generic_zone_files_iff[symmetric] gf by auto
  have r1: "readFileSync ?e (path_join ?e [''/ilib/locale'', ''zoneinfo'', ''UTC.json'']) = Some ''{utc}''"
    and r2: "readFileSync ?e (path_join ?e [''/ilib/locale'', ''zoneinfo'', ''Etc/GMT+1.json'']) = Some ''{gmt1}''"
    and r3: "readFileSync ?e (path_join ?e [''/ilib/locale'', ''zoneinfo'', ''America/New_York'' @ ''.json''])
               = Some ''{ny}''"
    and x3: "existsSync ?e (path_join ?e [''/ilib/locale'', ''zoneinfo'', ''America/New_York'' @ ''.json''])"
    by code_simp+
  have b1: "path_basename ?e ''UTC.json'' ''.json'' = ''UTC''"
    and b2: "path_basename ?e ''Etc/GMT+1.json'' ''.json'' = ''GMT+1''"
    by code_simp+
  have files: "\<forall>f. generic_zone_file ?L ?E f \<longrightarrow>
                  readFileSync ?e (path_join ?e [''/ilib/locale'', ''zoneinfo'', f]) \<noteq> None"
    unfolding gz using r1 r2 by auto
  have k1: "''zonetab'' \<notin> set [''America/New_York'']"
    by simp
  have k2: "\<forall>f. generic_zone_file ?L ?E f \<longrightarrow> path_basename ?e f ''.json'' \<noteq> ''zonetab''"
    unfolding gz using b1 b2 by auto
  have inj: "\<forall>f g. generic_zone_file ?L ?E f \<longrightarrow> generic_zone_file ?L ?E g \<longrightarrow>
                path_basename ?e f ''.json'' = path_basename ?e g ''.json'' \<longrightarrow> f = g"
    unfolding gz using b1 b2 by auto
  have own: "\<forall>f. generic_zone_file ?L ?E f \<longrightarrow> path_basename ?e f ''.json'' \<in> set [''America/New_York''] \<longrightarrow>
                f = path_basename ?e f ''.json'' @ ''.json''"
    unfolding gz using b1 b2 by auto
  from zoneinfo_complete[OF reg tab1 tab2 tab3 dirs files k1 k2 inj own, THEN conjunct1]
  obtain st bucket where
    agg: "aggregate ?e ''/ilib/locale'' [''en-US''] [''zoneinfo''] = Inr st"
    and os: "outputSet st = [(''root'', bucket)]"
    and c1: \<open>obj_get bucket ''zonetab''
                = Some (''ilib.data.zoneinfo.zonetab = '' @ ex_zonetab_text @ '';'' @ [newline])\<close>
    and c2: \<open>\<forall>z d. z \<in> set [''America/New_York''] \<longrightarrow>
                  existsSync ?e (path_join ?e [''/ilib/locale'', ''zoneinfo'', z @ ''.json'']) \<longrightarrow>
                  readFileSync ?e (path_join ?e [''/ilib/locale'', ''zoneinfo'', z @ ''.json'']) = Some d \<longrightarrow>
                  obj_get bucket z
                    = Some (''ilib.data.zoneinfo["'' @ zone_identifier z @ ''"] = '' @ d @ '';''
                            @ [newline])\<close>
    and c3: \<open>\<forall>f d. generic_zone_file ?L ?E f \<longrightarrow>
                  readFileSync ?e (path_join ?e [''/ilib/locale'', ''zoneinfo'', f]) = Some d \<longrightarrow>
                  obj_get bucket (path_basename ?e f ''.json'')
                    = Some (''ilib.data.zoneinfo["'' @ zone_identifier (path_basename ?e f ''.json'')
                            @ ''"] = '' @ d @ '';'' @ [newline])\<close>
    and c4: "\<forall>k. k \<in> set (obj_keys bucket) \<longleftrightarrow>
                  k = ''zonetab''
                  \<or> k \<in> set [''America/New_York'']
                    \<and> existsSync ?e (path_join ?e [''/ilib/locale'', ''zoneinfo'', k @ ''.json''])
                    \<and> readFileSync ?e (path_join ?e [''/ilib/locale'', ''zoneinfo'', k @ ''.json'']) \<noteq> None
                  \<or> (\<exists>f. generic_zone_file ?L ?E f \<and> k = path_basename ?e f ''.json'')"
    by (elim exE conjE)
  have ny: \<open>obj_get bucket ''America/New_York''
                   = Some (''ilib.data.zoneinfo["America/New_York"] = {ny};'' @ [newline])\<close>
    using c2[rule_format, of "''America/New_York''" "''{ny}''"] x3 r3
    by (simp add: zone_identifier_def)
  have utc: \<open>obj_get bucket ''UTC'' = Some (''ilib.data.zoneinfo["UTC"] = {utc};'' @ [newline])\<close>
    using c3[rule_format, of "''UTC.json''" "''{utc}''"] r1
    by (simp add: gz b1 zone_identifier_def)
  have gmt: \<open>obj_get bucket ''GMT+1'' = Some (''ilib.data.zoneinfo["GMTp1"] = {gmt1};'' @ [newline])\<close>
    using c3[rule_format, of "''Etc/GMT+1.json''" "''{gmt1}''"] r2
    by (simp add: gz b2 zone_identifier_def)
  have keys: "set (obj_keys bucket) = {''zonetab'', ''America/New_York'', ''UTC'', ''GMT+1''}"
  proof (rule set_eqI)
    fix k
    have a: "k \<in> set [''America/New_York'']
               \<and> existsSync ?e (path_join ?e [''/ilib/locale'', ''zoneinfo'', k @ ''.json''])
               \<and> readFileSync ?e (path_join ?e [''/ilib/locale'', ''zoneinfo'', k @ ''.json'']) \<noteq> None
             \<longleftrightarrow> k = ''America/New_York''"
    proof
      assume "k = ''America/New_York''"
      with x3 r3 show "k \<in> set [''America/New_York'']
               \<and> existsSync ?e (path_join ?e [''/ilib/locale'', ''zoneinfo'', k @ ''.json''])
               \<and> readFileSync ?e (path_join ?e [''/ilib/locale'', ''zoneinfo'', k @ ''.json'']) \<noteq> None"
        by simp
    qed simp
    have b: "(\<exists>f. generic_zone_file ?L ?E f \<and> k = path_basename ?e f ''.json'')
             \<longleftrightarrow> k = ''UTC'' \<or> k = ''GMT+1''"
    proof
      assume "\<exists>f. generic_zone_file ?L ?E f \<and> k = path_basename ?e f ''.json''"
      then obtain f where "f = ''UTC.json'' \<or> f = ''Etc/GMT+1.json''" "k = path_basename ?e f ''.json''"
        unfolding gz by (elim exE conjE)
      then show "k = ''UTC'' \<or> k = ''GMT+1''"
        using b1 b2 by (elim disjE) simp_all
    next
      assume "k = ''UTC'' \<or> k = ''GMT+1''"
      then show "\<exists>f. generic_zone_file ?L ?E f \<and> k = path_basename ?e f ''.json''"
      proof
        assume "k = ''UTC''"
        then show ?thesis
          by (intro exI[of _ "''UTC.json''"]) (simp add: gz b1)
      next
        assume "k = ''GMT+1''"
        then show ?thesis
          by (intro exI[of _ "''Etc/GMT+1.json''"]) (simp add: gz b2)
      qed
    qed
    show "k \<in> set (obj_keys bucket) \<longleftrightarrow> k \<in> {''zonetab'', ''America/New_York'', ''UTC'', ''GMT+1''}"
      unfolding c4[rule_format] a b by simp
  qed
  show ?thesis
    using c1 ny utc gmt keys by (simp add: agg os obj_keys_def obj_get_def)
qed

subsection \<open>A zone file that cannot be read\<close>

text \<open>
  C8. With \<open>zoneinfo\<close> registered, a generic zone file that is listed and cannot be read
  makes \<open>emitLocaleData\<close> throw: the callback of the generic zones has no \<open>try\<close>. The
  same failure on the file of a region's zone, whose callback has one, is caught and
  logged and the pass goes on to the next feature.
\<close>

theorem unreadable_zone_aborts:
  "fst (emitLocaleData (ex_env (ex_unreadable ''/ilib/locale/zoneinfo/Etc/GMT+1.json'') ex_dirs)
          (ex_options [''en-US''])
          \<lparr>localeData = [''zoneinfo'', ''dateformat''], localeDataEmitted = None\<rparr>)
     = Inl (IOError ''/ilib/locale/zoneinfo/Etc/GMT+1.json'')
   \<and> (case aggregate (ex_env (ex_unreadable ''/ilib/locale/zoneinfo/America/New_York.json'') ex_dirs)
             ''/ilib/locale'' [''en-US''] [''zoneinfo'', ''dateformat''] of
         Inr st \<Rightarrow> errlog st = [IOError ''/ilib/locale/zoneinfo/America/New_York.json'']
                   \<and> ''en/dateformat.json'' \<in> set (manifest st)
       | Inl err \<Rightarrow> False)"
  by code_simp

section \<open>Optional charsets\<close>

subsection \<open>The root bucket\<close>


lemma root_get_ensure: "root_get (ensure_bucket part os) k = root_get os k"
  by (auto simp: root_get_def ensure_bucket_def obj_get_obj_set obj_get_Nil split: option.splits)

lemma root_keys_put:
  assumes "put_line part k v os = Some os'"
  shows "set (root_keys os') \<subseteq> insert k (set (root_keys os))"
  using assms
  by (auto simp: put_line_def root_keys_def obj_get_obj_set obj_keys_obj_set set_set_add
      split: option.splits if_splits)

lemma root_get_put_other:
  assumes "put_line part k v os = Some os'" "k' \<noteq> k"
  shows "root_get os' k' = root_get os k'"
  using assms
  by (auto simp: put_line_def root_get_def obj_get_obj_set split: option.splits if_splits)


lemma put_line_root_exists:
  "obj_get os ''root'' \<noteq> None \<Longrightarrow> \<exists>os'. put_line ''root'' k v os = Some os'"
  by (auto simp: put_line_def split: option.splits)


lemma root_exists_ensure: "obj_get (ensure_bucket ''root'' os) ''root'' \<noteq> None"
  by (auto simp: ensure_bucket_def obj_get_obj_set split: option.splits)




subsection \<open>The main loop\<close>



lemma generic_part_fields:
  "charsets (generic_part e dataRoot filename dir st) = charsets st"
  "charmaps (generic_part e dataRoot filename dir st) = charmaps st"
  "normalizations (generic_part e dataRoot filename dir st) = normalizations st"
  by (auto simp: generic_part_def Let_def log_error_def split: option.splits)

lemma generic_request_fields:
  "charsets (generic_request e dataRoot loc filename st) = charsets st"
  "charmaps (generic_request e dataRoot loc filename st) = charmaps st"
  "normalizations (generic_request e dataRoot loc filename st) = normalizations st"
  unfolding generic_request_def
  by (rule fold_preserves, rule generic_part_fields)+











subsection \<open>The lines of the root bucket\<close>






lemma part_root_line:
  "part = ''root'' \<Longrightarrow> generic_line f part d = generic_line f ''root'' d"
  by simp






subsection \<open>The charsets collected by the main loop\<close>






















subsection \<open>The loop over the charsets\<close>










subsection \<open>Charset aliases, charmaps and normalization forms\<close>




lemma addForm_frame:
  shows "set (root_keys (outputSet (addForm e dataRoot form scr st)))
           \<subseteq> insert (form @ ''/'' @ scr) (set (root_keys (outputSet st)))"
    and "charsets (addForm e dataRoot form scr st) = charsets st"
    and "normalizations (addForm e dataRoot form scr st) = normalizations st"
    and "k \<noteq> form @ ''/'' @ scr \<Longrightarrow>
           root_get (outputSet (addForm e dataRoot form scr st)) k = root_get (outputSet st) k"
  by (auto simp: addForm_def Let_def log_error_def split: if_splits option.splits
      dest: root_keys_put[THEN subsetD] root_get_put_other)


lemma norm_form_normalizations:
  "normalizations (norm_form e dataRoot scripts entry st) = normalizations st"
proof -
  have "normalizations (fold (addForm e dataRoot (fst entry)) scrs st) = normalizations st" for scrs
    by (rule fold_preserves) (rule addForm_frame(3))
  then show ?thesis
    by (simp add: norm_form_def Let_def addForm_frame(3))
qed

lemma norm_form_charsets:
  "charsets (norm_form e dataRoot scripts entry st) = charsets st"
proof -
  have "charsets (fold (addForm e dataRoot (fst entry)) scrs st) = charsets st" for scrs
    by (rule fold_preserves) (rule addForm_frame(2))
  then show ?thesis
    by (simp add: norm_form_def Let_def addForm_frame(2))
qed

lemma norm_phase_charsets: "charsets (norm_phase e dataRoot scripts st) = charsets st"
  unfolding norm_phase_def by (rule fold_preserves) (rule norm_form_charsets)











subsection \<open>The charmap of an optional charset\<close>





section \<open>Further properties of the pass\<close>

lemma process_feature_total:
  assumes "filename \<noteq> ''charset''" "filename \<noteq> ''charmaps''" "filename \<noteq> ''zoneinfo''"
  shows "\<exists>st'. process_feature e dataRoot locs loc filename st = Inr st' \<and> charsets st' = charsets st"
proof (cases "normPattern_exec filename")
  case None
  with assms show ?thesis
    by (simp add: process_feature_generic generic_request_fields)
next
  case (Some m)
  with assms show ?thesis
    by (simp add: process_feature_norm norm_request_def)
qed

lemma features_total:
  assumes "''charset'' \<notin> set features" "''charmaps'' \<notin> set features" "''zoneinfo'' \<notin> set features"
  shows "\<exists>st'. forEachM (process_feature e dataRoot locs loc) features st = Inr st'
           \<and> charsets st' = charsets st"
  using assms
proof (induction features arbitrary: st)
  case Nil
  then show ?case by simp
next
  case (Cons f fs)
  then have f: "f \<noteq> ''charset''" "f \<noteq> ''charmaps''" "f \<noteq> ''zoneinfo''"
    by auto
  from process_feature_total[OF f] obtain st1 where
    a: "process_feature e dataRoot locs loc f st = Inr st1" and c: "charsets st1 = charsets st"
    by blast
  from Cons obtain st' where
    "forEachM (process_feature e dataRoot locs loc) fs st1 = Inr st'" "charsets st' = charsets st1"
    by (metis list.set_intros(2))
  with a c show ?case by simp
qed

lemma main_loop_total:
  assumes "''charset'' \<notin> set features" "''charmaps'' \<notin> set features" "''zoneinfo'' \<notin> set features"
  shows "\<exists>st'. forEachM (\<lambda>loc. forEachM (process_feature e dataRoot locs loc) features) ls st = Inr st'
           \<and> charsets st' = charsets st"
proof (induction ls arbitrary: st)
  case Nil
  then show ?case by simp
next
  case (Cons l ls)
  from features_total[OF assms] obtain st1 where
    a: "forEachM (process_feature e dataRoot locs l) features st = Inr st1" and c: "charsets st1 = charsets st"
    by blast
  from Cons obtain st' where
    "forEachM (\<lambda>loc. forEachM (process_feature e dataRoot locs loc) features) ls st1 = Inr st'"
    "charsets st' = charsets st1"
    by blast
  with a c show ?case by simp
qed

text \<open>
  The reads that are inside a \<open>try\<close>: when neither \<open>charset\<close>, \<open>charmaps\<close> nor
  \<open>zoneinfo\<close> is registered, every read of the aggregation is one of a generic fragment
  or of a normalization fragment, and the aggregation completes whatever the files do:
  a read that fails is logged and the fragment left out.
\<close>

theorem reads_in_try_never_abort:
  assumes "''charset'' \<notin> set features" "''charmaps'' \<notin> set features" "''zoneinfo'' \<notin> set features"
  shows "\<exists>st. aggregate e dataRoot locs features = Inr st"
proof -
  from main_loop_total[OF assms] obtain st1 where
    m: "main_loop e dataRoot locs features init_agg = Inr st1" and c: "charsets st1 = charsets init_agg"
    unfolding main_loop_def by blast
  then have "charset_phase e dataRoot st1 = Inr st1"
    by (simp add: charset_phase_def init_agg_def)
  with m show ?thesis
    by (simp add: aggregate_def)
qed

theorem reads_in_try_never_abort_witness:
  "(case aggregate (ex_env (ex_unreadable ''/ilib/locale/en/dateformat.json'') ex_dirs)
           ''/ilib/locale'' [''en-US''] [''dateformat'', ''nfc/Latn''] of
      Inr st \<Rightarrow> errlog st = [IOError ''/ilib/locale/en/dateformat.json'']
                \<and> ''nfc/Latn.json'' \<in> set (manifest st)
    | Inl err \<Rightarrow> False)"
proof -
  let ?a = "aggregate (ex_env (ex_unreadable ''/ilib/locale/en/dateformat.json'') ex_dirs)
           ''/ilib/locale'' [''en-US''] [''dateformat'', ''nfc/Latn'']"
  have f: "''charset'' \<notin> set [''dateformat'', ''nfc/Latn'']"
    "''charmaps'' \<notin> set [''dateformat'', ''nfc/Latn'']"
    "''zoneinfo'' \<notin> set [''dateformat'', ''nfc/Latn'']"
    by simp_all
  from reads_in_try_never_abort[OF f] obtain st where eq: "?a = Inr st"
    by blast
  have "(case ?a of Inr st \<Rightarrow> errlog st = [IOError ''/ilib/locale/en/dateformat.json'']
                \<and> ''nfc/Latn.json'' \<in> set (manifest st) | Inl err \<Rightarrow> True)"
    by code_simp
  with eq show ?thesis by simp
qed

text \<open>
  The script \<open>all\<close>: for a form registered with it, the loop calls \<open>addForm\<close> for
  \<open>all\<close> alone, so the only key the form can add to the root bucket is that of its
  \<open>all\<close> fragment, whatever other scripts were registered or are required.
\<close>

theorem all_shortcut:
  assumes "''all'' \<in> set (snd entry)"
  shows "norm_form e dataRoot scripts entry st = addForm e dataRoot (fst entry) ''all'' st
         \<and> set (root_keys (outputSet (norm_form e dataRoot scripts entry st)))
             \<subseteq> insert (fst entry @ ''/all'') (set (root_keys (outputSet st)))"
proof -
  have eq: "norm_form e dataRoot scripts entry st = addForm e dataRoot (fst entry) ''all'' st"
    using assms by (simp add: norm_form_def Let_def)
  moreover have "set (root_keys (outputSet (addForm e dataRoot (fst entry) ''all'' st)))
             \<subseteq> insert (fst entry @ ''/'' @ ''all'') (set (root_keys (outputSet st)))"
    by (rule addForm_frame(1))
  ultimately show ?thesis by simp
qed

theorem all_shortcut_witness:
  "(case aggregate (ex_env ((''/ilib/locale/nfc/all.json'', Some ''{all}'') # ex_files) ex_dirs)
           ''/ilib/locale'' [''en-US''] [''dateformat'', ''nfc/Latn'', ''nfc/all''] of
      Inr st \<Rightarrow> normalizations st = [(''nfc'', [''Latn'', ''all''])]
                \<and> root_keys (outputSet st) = [''dateformat'', ''nfc/all'']
    | Inl err \<Rightarrow> False)
   \<and> norm_form (ex_env ex_files ex_dirs) ''/ilib/locale'' [''Latn''] (''nfc'', [''Latn'', ''all'']) init_agg
       = addForm (ex_env ex_files ex_dirs) ''/ilib/locale'' ''nfc'' ''all'' init_agg"
proof -
  have a: "''all'' \<in> set (snd (''nfc'', [''Latn'', ''all'']))"
    by simp
  have "(case aggregate (ex_env ((''/ilib/locale/nfc/all.json'', Some ''{all}'') # ex_files) ex_dirs)
           ''/ilib/locale'' [''en-US''] [''dateformat'', ''nfc/Latn'', ''nfc/all''] of
      Inr st \<Rightarrow> normalizations st = [(''nfc'', [''Latn'', ''all''])]
                \<and> root_keys (outputSet st) = [''dateformat'', ''nfc/all'']
    | Inl err \<Rightarrow> False)"
    by code_simp
  with all_shortcut[OF a, of "ex_env ex_files ex_dirs" "''/ilib/locale''" "[''Latn'']" init_agg]
  show ?thesis by simp
qed

text \<open>
  A tag without a language, such as \<open>US\<close>: the second directory is \<open>undefined\<close>, on
  which \<open>path.join\<close> throws inside the \<open>try\<close>, so no language partition is made and one
  error is logged for each generic feature; the language-region directory is spelled
  with \<open>undefined\<close> and names the partition \<open>undefined-\<close>region.
\<close>

theorem parts_without_language:
  assumes "language l = []" "script l = []" "region l \<noteq> []" "CHR ''/'' \<notin> set (region l)"
  shows "map (map_option part_name) (parts l)
           = [Some ''root'', None, Some (''undefined-'' @ region l), Some (''und-'' @ region l)]
         \<and> generic_part e dataRoot filename None st = log_error TypeError st"
proof -
  have a: "part_name (''undefined/'' @ region l) = ''undefined-'' @ region l"
    using assms(4) part_name_dir[of "''undefined''" "region l"]
    by (simp add: replace_char_id replace_char_Cons)
  have b: "part_name (''und/'' @ region l) = ''und-'' @ region l"
    using assms(4) part_name_dir[of "''und''" "region l"]
    by (simp add: replace_char_id replace_char_Cons)
  show ?thesis
    using assms(1,2,3) a b
    by (simp add: parts_def language_text_def part_name_dot generic_part_def)
qed

theorem parts_without_language_witness:
  "map (map_option part_name) (parts (ex_Locale ''US''))
     = [Some ''root'', None, Some ''undefined-US'', Some ''und-US'']
   \<and> (case aggregate (ex_env ex_files ex_dirs) ''/ilib/locale'' [''US''] [''dateformat''] of
         Inr st \<Rightarrow> obj_keys (outputSet st) = [''root'', ''undefined-US'', ''und-US'']
                   \<and> errlog st = [TypeError]
       | Inl err \<Rightarrow> False)"
proof -
  have h: "language (ex_Locale ''US'') = []" "script (ex_Locale ''US'') = []"
    "region (ex_Locale ''US'') \<noteq> []" "CHR ''/'' \<notin> set (region (ex_Locale ''US''))"
    by (simp_all add: ex_Locale_def)
  have r: "region (ex_Locale ''US'') = ''US''"
    by (simp add: ex_Locale_def)
  have "(case aggregate (ex_env ex_files ex_dirs) ''/ilib/locale'' [''US''] [''dateformat''] of
         Inr st \<Rightarrow> obj_keys (outputSet st) = [''root'', ''undefined-US'', ''und-US'']
                   \<and> errlog st = [TypeError]
       | Inl err \<Rightarrow> False)"
    by code_simp
  with parts_without_language[OF h, THEN conjunct1] show ?thesis
    by (simp add: r)
qed

end
